theory Spec2Isabelle
  imports Complex_Main "HOL-Library.Word" "HOL-Library.Multiset"
begin

unbundle bit_operations_syntax

section \<open>Single-precision floating point\<close>

text \<open>
  The program computes on C++ \<^verbatim>\<open>float\<close> (IEEE-754 binary32). A value is a NaN, an
  infinity with its sign, or a finite number given by its sign (\<open>True\<close> is negative) and
  its magnitude, so that the two zeros \<open>Fin False 0\<close> and \<open>Fin True 0\<close> are distinct
  values that compare equal, as in IEEE-754.
\<close>

datatype float = NaN | Infty bool | Fin bool rat

definition PInf :: float where "PInf = Infty False"
definition MInf :: float where "MInf = Infty True"

definition is_nan :: "float \<Rightarrow> bool" where
  "is_nan a = (a = NaN)"

text \<open>Position of a non-NaN value on the extended number line: class first, value second.\<close>

fun fcls :: "float \<Rightarrow> int" where
  "fcls NaN = 0"
| "fcls (Infty s) = (if s then -1 else 1)"
| "fcls (Fin s m) = 0"

fun fval :: "float \<Rightarrow> rat" where
  "fval NaN = 0"
| "fval (Infty s) = 0"
| "fval (Fin s m) = (if s then - m else m)"

text \<open>The comparison operators of C++ on floats: each is false when an operand is NaN.\<close>

definition flt :: "float \<Rightarrow> float \<Rightarrow> bool" where
  "flt a b = (a \<noteq> NaN \<and> b \<noteq> NaN \<and>
     (fcls a < fcls b \<or> (fcls a = fcls b \<and> fval a < fval b)))"

definition fle :: "float \<Rightarrow> float \<Rightarrow> bool" where
  "fle a b = (a \<noteq> NaN \<and> b \<noteq> NaN \<and>
     (fcls a < fcls b \<or> (fcls a = fcls b \<and> fval a \<le> fval b)))"

definition fgt :: "float \<Rightarrow> float \<Rightarrow> bool" where
  "fgt a b = flt b a"

definition fge :: "float \<Rightarrow> float \<Rightarrow> bool" where
  "fge a b = fle b a"

text \<open>\<^verbatim>\<open>std::min(a, b)\<close> is \<^verbatim>\<open>(b < a) ? b : a\<close> and \<^verbatim>\<open>std::max(a, b)\<close> is
  \<^verbatim>\<open>(a < b) ? b : a\<close>.\<close>

definition std_min :: "float \<Rightarrow> float \<Rightarrow> float" where
  "std_min a b = (if flt b a then b else a)"

definition std_max :: "float \<Rightarrow> float \<Rightarrow> float" where
  "std_max a b = (if flt a b then b else a)"

text \<open>\<^verbatim>\<open>std::numeric_limits<float>::max()\<close> is \<open>(2^24 - 1) * 2^104\<close>, and
  \<^verbatim>\<open>epsilon()\<close> is \<open>2^-23\<close>.\<close>

definition FLT_MAX_mag :: rat where
  "FLT_MAX_mag = (2 ^ 24 - 1) * 2 ^ 104"

definition FLT_MAX :: float where
  "FLT_MAX = Fin False FLT_MAX_mag"

definition FLT_EPSILON :: float where
  "FLT_EPSILON = Fin False (1 / 2 ^ 23)"

text \<open>Unary minus flips the sign bit.\<close>

fun fneg :: "float \<Rightarrow> float" where
  "fneg NaN = NaN"
| "fneg (Infty s) = Infty (\<not> s)"
| "fneg (Fin s m) = Fin (\<not> s) m"

text \<open>A finite binary32 value: a magnitude between 0 and \<open>FLT_MAX\<close>.\<close>

fun is_finite :: "float \<Rightarrow> bool" where
  "is_finite NaN = False"
| "is_finite (Infty s) = False"
| "is_finite (Fin s m) = (0 \<le> m \<and> m \<le> FLT_MAX_mag)"

subsection \<open>Rounding to nearest, ties to even\<close>

function bitlen :: "int \<Rightarrow> int" where
  "bitlen n = (if n \<le> 0 then 0 else 1 + bitlen (n div 2))"
  by pat_completeness auto
termination
  by (relation "measure nat") auto

declare bitlen.simps [simp del]

definition pow2 :: "int \<Rightarrow> rat" where
  "pow2 e = (if 0 \<le> e then 2 ^ nat e else 1 / 2 ^ nat (- e))"

text \<open>\<open>ilog2 m\<close> is the \<open>e\<close> with \<open>2^e \<le> m < 2^(e+1)\<close>, for \<open>m > 0\<close>.\<close>

definition ilog2 :: "rat \<Rightarrow> int" where
  "ilog2 m = (let (p, q) = quotient_of m;
                  e0 = bitlen p - bitlen q
              in if pow2 e0 \<le> m then e0 else e0 - 1)"

definition round_even :: "rat \<Rightarrow> int" where
  "round_even r = (let f = \<lfloor>r\<rfloor>; d = r - of_int f
                   in if d < 1 / 2 then f
                      else if 1 / 2 < d then f + 1
                      else if even f then f else f + 1)"

text \<open>Round a magnitude \<open>m \<ge> 0\<close> with sign \<open>s\<close> to binary32: 24 significant bits,
  exponents from -126 (subnormals below), overflow to infinity.\<close>

definition rnd :: "bool \<Rightarrow> rat \<Rightarrow> float" where
  "rnd s m = (if m = 0 then Fin s 0
              else let e = max (ilog2 m) (- 126);
                       u = pow2 (e - 23);
                       r = of_int (round_even (m / u)) * u
                   in if pow2 128 \<le> r then Infty s else Fin s r)"

definition rnd_val :: "rat \<Rightarrow> float" where
  "rnd_val v = rnd (v < 0) \<bar>v\<bar>"

subsection \<open>Arithmetic\<close>

fun fadd :: "float \<Rightarrow> float \<Rightarrow> float" where
  "fadd NaN b = NaN"
| "fadd a NaN = NaN"
| "fadd (Infty s) (Infty t) = (if s = t then Infty s else NaN)"
| "fadd (Infty s) (Fin t m) = Infty s"
| "fadd (Fin s m) (Infty t) = Infty t"
| "fadd (Fin s m) (Fin t n) =
     (let v = fval (Fin s m) + fval (Fin t n)
      in if v = 0 then Fin (s \<and> t) 0 else rnd_val v)"

definition fsub :: "float \<Rightarrow> float \<Rightarrow> float" where
  "fsub a b = fadd a (fneg b)"

fun fmul :: "float \<Rightarrow> float \<Rightarrow> float" where
  "fmul NaN b = NaN"
| "fmul a NaN = NaN"
| "fmul (Infty s) (Infty t) = Infty (s \<noteq> t)"
| "fmul (Infty s) (Fin t m) = (if m = 0 then NaN else Infty (s \<noteq> t))"
| "fmul (Fin s m) (Infty t) = (if m = 0 then NaN else Infty (s \<noteq> t))"
| "fmul (Fin s m) (Fin t n) = rnd (s \<noteq> t) (m * n)"

fun fdiv :: "float \<Rightarrow> float \<Rightarrow> float" where
  "fdiv NaN b = NaN"
| "fdiv a NaN = NaN"
| "fdiv (Infty s) (Infty t) = NaN"
| "fdiv (Infty s) (Fin t m) = Infty (s \<noteq> t)"
| "fdiv (Fin s m) (Infty t) = Fin (s \<noteq> t) 0"
| "fdiv (Fin s m) (Fin t n) =
     (if n = 0 then (if m = 0 then NaN else Infty (s \<noteq> t))
      else rnd (s \<noteq> t) (m / n))"

text \<open>\<^verbatim>\<open>std::fabs\<close> clears the sign bit, \<^verbatim>\<open>std::copysign(a, b)\<close> gives \<open>a\<close> the sign
  bit of \<open>b\<close> (a NaN carries a sign bit that the model does not keep: positive).\<close>

fun fabs :: "float \<Rightarrow> float" where
  "fabs NaN = NaN"
| "fabs (Infty s) = Infty False"
| "fabs (Fin s m) = Fin False m"

fun sign_bit :: "float \<Rightarrow> bool" where
  "sign_bit NaN = False"
| "sign_bit (Infty s) = s"
| "sign_bit (Fin s m) = s"

fun copysign :: "float \<Rightarrow> float \<Rightarrow> float" where
  "copysign NaN b = NaN"
| "copysign (Infty s) b = Infty (sign_bit b)"
| "copysign (Fin s m) b = Fin (sign_bit b) m"

text \<open>Integer to float conversion rounds; the integer literals of the source are exact.\<close>

definition float_of_nat :: "nat \<Rightarrow> float" where
  "float_of_nat n = rnd False (of_nat n)"

definition f0 :: float where "f0 = Fin False 0"
definition f1 :: float where "f1 = Fin False 1"

section \<open>Vectors and bounding boxes\<close>

datatype Vec3 = Vec3 (v0: float) (v1: float) (v2: float)

text \<open>\<^verbatim>\<open>operator []\<close>: the source only indexes with 0, 1 and 2.\<close>

definition vat :: "Vec3 \<Rightarrow> nat \<Rightarrow> float" where
  "vat a i = (if i = 0 then v0 a else if i = 1 then v1 a else v2 a)"

definition Vec3_splat :: "float \<Rightarrow> Vec3" where
  "Vec3_splat c = Vec3 c c c"

definition vadd :: "Vec3 \<Rightarrow> Vec3 \<Rightarrow> Vec3" where
  "vadd a b = Vec3 (fadd (v0 a) (v0 b)) (fadd (v1 a) (v1 b)) (fadd (v2 a) (v2 b))"

definition vsub :: "Vec3 \<Rightarrow> Vec3 \<Rightarrow> Vec3" where
  "vsub a b = Vec3 (fsub (v0 a) (v0 b)) (fsub (v1 a) (v1 b)) (fsub (v2 a) (v2 b))"

definition vmul :: "Vec3 \<Rightarrow> Vec3 \<Rightarrow> Vec3" where
  "vmul a b = Vec3 (fmul (v0 a) (v0 b)) (fmul (v1 a) (v1 b)) (fmul (v2 a) (v2 b))"

definition vscale :: "Vec3 \<Rightarrow> float \<Rightarrow> Vec3" where
  "vscale a b = Vec3 (fmul (v0 a) b) (fmul (v1 a) b) (fmul (v2 a) b)"

definition vdiv :: "Vec3 \<Rightarrow> Vec3 \<Rightarrow> Vec3" where
  "vdiv a b = Vec3 (fdiv (v0 a) (v0 b)) (fdiv (v1 a) (v1 b)) (fdiv (v2 a) (v2 b))"

definition vmin :: "Vec3 \<Rightarrow> Vec3 \<Rightarrow> Vec3" where
  "vmin a b = Vec3 (std_min (v0 a) (v0 b)) (std_min (v1 a) (v1 b)) (std_min (v2 a) (v2 b))"

definition vmax :: "Vec3 \<Rightarrow> Vec3 \<Rightarrow> Vec3" where
  "vmax a b = Vec3 (std_max (v0 a) (v0 b)) (std_max (v1 a) (v1 b)) (std_max (v2 a) (v2 b))"

definition dot :: "Vec3 \<Rightarrow> Vec3 \<Rightarrow> float" where
  "dot a b = fadd (fadd (fmul (v0 a) (v0 b)) (fmul (v1 a) (v1 b))) (fmul (v2 a) (v2 b))"

definition cross :: "Vec3 \<Rightarrow> Vec3 \<Rightarrow> Vec3" where
  "cross a b = Vec3
     (fsub (fmul (v1 a) (v2 b)) (fmul (v2 a) (v1 b)))
     (fsub (fmul (v2 a) (v0 b)) (fmul (v0 a) (v2 b)))
     (fsub (fmul (v0 a) (v1 b)) (fmul (v1 a) (v0 b)))"

datatype BBox = BBox (bmin: Vec3) (bmax: Vec3)

definition BBox_point :: "Vec3 \<Rightarrow> BBox" where
  "BBox_point p = BBox p p"

definition BBox_extend :: "BBox \<Rightarrow> BBox \<Rightarrow> BBox" where
  "BBox_extend b other = BBox (vmin (bmin b) (bmin other)) (vmax (bmax b) (bmax other))"

definition BBox_extend_point :: "BBox \<Rightarrow> Vec3 \<Rightarrow> BBox" where
  "BBox_extend_point b p = BBox_extend b (BBox_point p)"

definition diagonal :: "BBox \<Rightarrow> Vec3" where
  "diagonal b = vsub (bmax b) (bmin b)"

definition largest_axis :: "BBox \<Rightarrow> nat" where
  "largest_axis b =
     (let d = diagonal b;
          axis = (if flt (vat d 0) (vat d 1) then 1 else 0)
      in if flt (vat d axis) (vat d 2) then 2 else axis)"

definition half_area :: "BBox \<Rightarrow> float" where
  "half_area b =
     (let d = diagonal b
      in fadd (fmul (fadd (v0 d) (v1 d)) (v2 d)) (fmul (v0 d) (v1 d)))"

text \<open>\<^verbatim>\<open>BBox::empty()\<close> of \<^verbatim>\<open>bvh_ploc.cpp\<close>: minimum at \<open>+FLT_MAX\<close>, maximum at
  \<open>-FLT_MAX\<close>.\<close>

definition BBox_empty :: BBox where
  "BBox_empty = BBox (Vec3_splat FLT_MAX) (Vec3_splat (fneg FLT_MAX))"

text \<open>\<^verbatim>\<open>BBox::empty()\<close> of the binned SAH source: minimum at \<open>-FLT_MAX\<close>, maximum at
  \<open>+FLT_MAX\<close>.\<close>

definition BBox_empty_sah :: BBox where
  "BBox_empty_sah = BBox (Vec3_splat (fneg FLT_MAX)) (Vec3_splat FLT_MAX)"

definition finite_vec :: "Vec3 \<Rightarrow> bool" where
  "finite_vec p = (is_finite (v0 p) \<and> is_finite (v1 p) \<and> is_finite (v2 p))"

definition finite_box :: "BBox \<Rightarrow> bool" where
  "finite_box b = (finite_vec (bmin b) \<and> finite_vec (bmax b))"

section \<open>Rays, hits and nodes\<close>

definition robust_min :: "float \<Rightarrow> float \<Rightarrow> float" where
  "robust_min a b = (if flt a b then a else b)"

definition robust_max :: "float \<Rightarrow> float \<Rightarrow> float" where
  "robust_max a b = (if fgt a b then a else b)"

definition safe_inverse :: "float \<Rightarrow> float" where
  "safe_inverse c =
     (if fle (fabs c) FLT_EPSILON then copysign (fdiv f1 FLT_EPSILON) c else fdiv f1 c)"

record Ray =
  org :: Vec3
  dir :: Vec3
  tmin :: float
  tmax :: float

definition inv_dir :: "Ray \<Rightarrow> Vec3" where
  "inv_dir ray = Vec3 (safe_inverse (v0 (dir ray))) (safe_inverse (v1 (dir ray)))
                      (safe_inverse (v2 (dir ray)))"

text \<open>\<^verbatim>\<open>Hit\<close> holds a \<^verbatim>\<open>uint32_t\<close>; the value \<open>-1\<close>, all bits set, means no hit.\<close>

record Hit =
  prim_index :: "32 word"

definition Hit_none :: Hit where
  "Hit_none = \<lparr> prim_index = - 1 \<rparr>"

definition Hit_bool :: "Hit \<Rightarrow> bool" where
  "Hit_bool h = (prim_index h \<noteq> - 1)"

record Node =
  bbox :: BBox
  prim_count :: "32 word"
  first_index :: "32 word"

definition is_leaf :: "Node \<Rightarrow> bool" where
  "is_leaf node = (prim_count node \<noteq> 0)"

record Intersection =
  i_tmin :: float
  i_tmax :: float

definition Intersection_bool :: "Intersection \<Rightarrow> bool" where
  "Intersection_bool i = fle (i_tmin i) (i_tmax i)"

text \<open>The two vectors that \<^verbatim>\<open>Node::intersect\<close> holds after its \<^verbatim>\<open>std::tie\<close> line: the
  per-axis entry and exit distances.\<close>

definition t_near :: "Node \<Rightarrow> Ray \<Rightarrow> Vec3" where
  "t_near node ray =
     (let inv = inv_dir ray;
          tmin0 = vmul (vsub (bmin (bbox node)) (org ray)) inv;
          tmax0 = vmul (vsub (bmax (bbox node)) (org ray)) inv
      in vmin tmin0 tmax0)"

definition t_far :: "Node \<Rightarrow> Ray \<Rightarrow> Vec3" where
  "t_far node ray =
     (let inv = inv_dir ray;
          tmin0 = vmul (vsub (bmin (bbox node)) (org ray)) inv;
          tmax0 = vmul (vsub (bmax (bbox node)) (org ray)) inv
      in vmax tmin0 tmax0)"

definition Node_intersect :: "Node \<Rightarrow> Ray \<Rightarrow> Intersection" where
  "Node_intersect node ray =
     (let inv = inv_dir ray;
          tmin0 = vmul (vsub (bmin (bbox node)) (org ray)) inv;
          tmax0 = vmul (vsub (bmax (bbox node)) (org ray)) inv;
          tmin1 = vmin tmin0 tmax0;
          tmax1 = vmax tmin0 tmax0
      in \<lparr> i_tmin = robust_max (vat tmin1 0) (robust_max (vat tmin1 1)
                         (robust_max (vat tmin1 2) (tmin ray))),
           i_tmax = robust_min (vat tmax1 0) (robust_min (vat tmax1 1)
                         (robust_min (vat tmax1 2) (tmax ray))) \<rparr>)"

section \<open>Triangles\<close>

record Triangle =
  p0 :: Vec3
  p1 :: Vec3
  p2 :: Vec3

text \<open>The barycentric coordinates and the distance that \<^verbatim>\<open>Triangle::intersect\<close> computes.\<close>

definition tri_inv_det :: "Triangle \<Rightarrow> Ray \<Rightarrow> float" where
  "tri_inv_det tri ray =
     fdiv f1 (dot (cross (vsub (p0 tri) (p1 tri)) (vsub (p2 tri) (p0 tri))) (dir ray))"

definition tri_u :: "Triangle \<Rightarrow> Ray \<Rightarrow> float" where
  "tri_u tri ray =
     fmul (dot (cross (dir ray) (vsub (p0 tri) (org ray))) (vsub (p2 tri) (p0 tri)))
          (tri_inv_det tri ray)"

definition tri_v :: "Triangle \<Rightarrow> Ray \<Rightarrow> float" where
  "tri_v tri ray =
     fmul (dot (cross (dir ray) (vsub (p0 tri) (org ray))) (vsub (p0 tri) (p1 tri)))
          (tri_inv_det tri ray)"

definition tri_w :: "Triangle \<Rightarrow> Ray \<Rightarrow> float" where
  "tri_w tri ray = fsub (fsub f1 (tri_u tri ray)) (tri_v tri ray)"

definition tri_t :: "Triangle \<Rightarrow> Ray \<Rightarrow> float" where
  "tri_t tri ray =
     fmul (dot (cross (vsub (p0 tri) (p1 tri)) (vsub (p2 tri) (p0 tri)))
               (vsub (p0 tri) (org ray)))
          (tri_inv_det tri ray)"

text \<open>\<^verbatim>\<open>Triangle::intersect\<close> takes the ray by reference: the model returns the result
  together with the ray as the call leaves it.\<close>

definition Triangle_intersect :: "Triangle \<Rightarrow> Ray \<Rightarrow> bool \<times> Ray" where
  "Triangle_intersect tri ray =
     (let e1 = vsub (p0 tri) (p1 tri);
          e2 = vsub (p2 tri) (p0 tri);
          n = cross e1 e2;
          c = vsub (p0 tri) (org ray);
          r = cross (dir ray) c;
          inv_det = fdiv f1 (dot n (dir ray));
          u = fmul (dot r e2) inv_det;
          v = fmul (dot r e1) inv_det;
          w = fsub (fsub f1 u) v
      in if fge u f0 \<and> fge v f0 \<and> fge w f0
         then (let t = fmul (dot n c) inv_det
               in if fge t (tmin ray) \<and> fle t (tmax ray)
                  then (True, ray\<lparr> tmax := t \<rparr>)
                  else (False, ray))
         else (False, ray))"

section \<open>Binning\<close>

definition bin_count :: nat where
  "bin_count = 16"

text \<open>
  Conversion of a float to \<^verbatim>\<open>int\<close> truncates towards zero. When the truncated value does
  not fit in 32 bits, or the float is an infinity or a NaN, the C++ standard leaves the
  result open and the hardware decides; \<open>oor\<close> stands for that result, a 32-bit integer.
\<close>

definition trunc_rat :: "rat \<Rightarrow> int" where
  "trunc_rat q = (if 0 \<le> q then \<lfloor>q\<rfloor> else - \<lfloor>- q\<rfloor>)"

definition float_to_int :: "(float \<Rightarrow> 32 word) \<Rightarrow> float \<Rightarrow> int" where
  "float_to_int oor c =
     (case c of
        Fin s m \<Rightarrow>
          (let k = trunc_rat (fval c)
           in if - (2 ^ 31) \<le> k \<and> k < 2 ^ 31 then k else sint (oor c))
      | _ \<Rightarrow> sint (oor c))"

definition bin_index :: "(float \<Rightarrow> 32 word) \<Rightarrow> nat \<Rightarrow> BBox \<Rightarrow> Vec3 \<Rightarrow> nat" where
  "bin_index oor axis b center =
     (let index = float_to_int oor
            (fmul (fsub (vat center axis) (vat (bmin b) axis))
                  (fdiv (float_of_nat bin_count)
                        (fsub (vat (bmax b) axis) (vat (bmin b) axis))))
      in min (bin_count - 1) (nat (max 0 index)))"


section \<open>Greatest and least of a list of floats\<close>

text \<open>\<open>max_of m cs\<close>: \<open>m\<close> is an element of \<open>cs\<close>, is not NaN, and no element of \<open>cs\<close>
  other than a NaN is above it. \<open>min_of\<close> is the mirror image.\<close>

definition max_of :: "float \<Rightarrow> float list \<Rightarrow> bool" where
  "max_of m cs = (m \<noteq> NaN \<and> m \<in> set cs \<and> (\<forall>c \<in> set cs. c \<noteq> NaN \<longrightarrow> fle c m))"

definition min_of :: "float \<Rightarrow> float list \<Rightarrow> bool" where
  "min_of m cs = (m \<noteq> NaN \<and> m \<in> set cs \<and> (\<forall>c \<in> set cs. c \<noteq> NaN \<longrightarrow> fle m c))"

section \<open>Sample inputs\<close>

text \<open>The unit cube as a leaf, and a ray looking down the z axis into it.\<close>

definition unit_box_node :: Node where
  "unit_box_node =
     \<lparr> bbox = BBox (Vec3 f0 f0 f0) (Vec3 f1 f1 f1), prim_count = 1, first_index = 0 \<rparr>"

definition z_ray :: Ray where
  "z_ray = \<lparr> org = Vec3 (Fin False (1 / 2)) (Fin False (1 / 2)) (Fin False 2),
             dir = Vec3 f0 f0 (Fin True 1), tmin = f0, tmax = Fin False 100 \<rparr>"

text \<open>The triangle \<open>(-1,0,0), (1,0,0), (0,1,0)\<close> and a ray from \<open>(0, 1/4, 1)\<close> towards
  \<open>-z\<close>; a triangle collapsed to a point.\<close>

definition tri1 :: Triangle where
  "tri1 = \<lparr> p0 = Vec3 (Fin True 1) f0 f0, p1 = Vec3 f1 f0 f0, p2 = Vec3 f0 f1 f0 \<rparr>"

definition ray1 :: Ray where
  "ray1 = \<lparr> org = Vec3 f0 (Fin False (1 / 4)) f1, dir = Vec3 f0 f0 (Fin True 1),
            tmin = f0, tmax = FLT_MAX \<rparr>"

definition tri_point :: Triangle where
  "tri_point = \<lparr> p0 = Vec3 f0 f0 f0, p1 = Vec3 f0 f0 f0, p2 = Vec3 f0 f0 f0 \<rparr>"

section \<open>The tree and its builders\<close>

text \<open>
  What can go wrong in a build or a traversal: \<open>LengthError\<close> is the exception of
  \<^verbatim>\<open>std::vector::resize\<close> beyond \<open>max_size()\<close>, \<open>AssertionFailed\<close> a failed \<^verbatim>\<open>assert\<close>,
  \<open>OutOfRange\<close> an access outside a vector.
\<close>

datatype error = LengthError | AssertionFailed | OutOfRange

record Bvh =
  nodes :: "Node list"
  prim_indices :: "nat list"

text \<open>A value-initialised \<^verbatim>\<open>Node\<close>, as \<^verbatim>\<open>resize\<close> creates them.\<close>

definition Node_zero :: Node where
  "Node_zero = \<lparr> bbox = BBox (Vec3 f0 f0 f0) (Vec3 f0 f0 f0), prim_count = 0, first_index = 0 \<rparr>"

text \<open>
  \<^verbatim>\<open>size_t\<close> has 64 bits and its arithmetic wraps around. \<^verbatim>\<open>bvh.nodes.resize(2 * prim_count - 1)\<close>
  throws when the size exceeds \<open>max_size()\<close>, which for the 32-byte \<^verbatim>\<open>Node\<close> is
  \<open>(2^63 - 1) div 32\<close>.
\<close>

definition vector_max_size :: nat where
  "vector_max_size = (2 ^ 63 - 1) div 32"

definition size_t_sub :: "nat \<Rightarrow> nat \<Rightarrow> nat" where
  "size_t_sub a b = (a + 2 ^ 64 - b) mod 2 ^ 64"

definition node_array_size :: "nat \<Rightarrow> nat" where
  "node_array_size n = size_t_sub ((2 * n) mod 2 ^ 64) 1"

subsection \<open>Morton codes\<close>

text \<open>
  \<^verbatim>\<open>Morton::split\<close>: the mask has 64 bits, \<open>x\<close> has 32; \<open>x | (x << n)\<close> is a 32-bit
  value that is widened for the \<open>&\<close> and truncated by the assignment. (In the first round
  \<open>n\<close> is 32, the width of \<open>x\<close>; whether that shift yields 0 or \<open>x\<close>, the round leaves the
  low 16 bits of \<open>x\<close>.)
\<close>

fun split_loop :: "nat \<Rightarrow> nat \<Rightarrow> 64 word \<Rightarrow> 32 word \<Rightarrow> 32 word" where
  "split_loop 0 n msk x = x"
| "split_loop (Suc i) n msk x =
     (let msk' = (msk OR push_bit n msk) AND NOT (push_bit (n div 2) msk);
          x' = ucast ((ucast (x OR push_bit n x) :: 64 word) AND msk')
      in split_loop i (n div 2) msk' x')"

definition Morton_split :: "32 word \<Rightarrow> 32 word" where
  "Morton_split x = split_loop 5 32 (push_bit 32 1 - 1) x"

definition Morton_encode :: "32 word \<Rightarrow> 32 word \<Rightarrow> 32 word \<Rightarrow> 32 word" where
  "Morton_encode x y z = Morton_split x OR push_bit 1 (Morton_split y) OR push_bit 2 (Morton_split z)"

text \<open>Conversion of a grid coordinate to \<^verbatim>\<open>uint32_t\<close>; the coordinate has been clamped
  to \<open>[0, 1023]\<close> before.\<close>

definition float_to_uint32 :: "float \<Rightarrow> 32 word" where
  "float_to_uint32 c = (case c of Fin s m \<Rightarrow> word_of_int (trunc_rat (fval c)) | _ \<Rightarrow> 0)"

text \<open>The box of all centers (\<^verbatim>\<open>std::transform_reduce\<close>, taken from left to right).\<close>

definition centers_bbox :: "Vec3 list \<Rightarrow> nat \<Rightarrow> BBox" where
  "centers_bbox centers n =
     foldl (\<lambda>left p. BBox_extend left (BBox_point p)) BBox_empty (take n centers)"

definition grid_pos :: "BBox \<Rightarrow> Vec3 \<Rightarrow> Vec3" where
  "grid_pos center_bbox c =
     vmin (Vec3_splat (float_of_nat 1023))
       (vmax (Vec3_splat f0)
         (vmul (vsub c (bmin center_bbox))
               (vdiv (Vec3_splat (float_of_nat 1024)) (diagonal center_bbox))))"

definition compute_mortons :: "Vec3 list \<Rightarrow> nat \<Rightarrow> 32 word list" where
  "compute_mortons centers n =
     (let center_bbox = centers_bbox centers n
      in map (\<lambda>i. let g = grid_pos center_bbox (centers ! i)
                   in Morton_encode (float_to_uint32 (vat g 0)) (float_to_uint32 (vat g 1))
                        (float_to_uint32 (vat g 2)))
             [0..<n])"

subsection \<open>PLOC: nearest neighbours and merging\<close>

definition search_radius :: nat where
  "search_radius = 14"

definition find_closest_node :: "Node list \<Rightarrow> nat \<Rightarrow> nat" where
  "find_closest_node ns index =
     (let begin = (if index > search_radius then index - search_radius else 0);
          end = (if index + search_radius + 1 < length ns then index + search_radius + 1
                 else length ns);
          first_node = ns ! index
      in fst (foldl (\<lambda>(best_index, best_distance) i.
                  if i = index then (best_index, best_distance)
                  else let distance = half_area (BBox_extend (bbox first_node) (bbox (ns ! i)))
                       in if flt distance best_distance then (i, distance)
                          else (best_index, best_distance))
               (0, FLT_MAX) [begin..<end]))"

text \<open>
  One pass of the inner \<^verbatim>\<open>for\<close> loop over the positions \<open>i\<close> of \<open>current_nodes\<close>. The state
  is \<open>next_nodes\<close>, the output array \<open>bvh.nodes\<close> and \<open>insertion_index\<close>.
\<close>

fun merge_pass :: "Node list \<Rightarrow> nat list \<Rightarrow> nat list \<Rightarrow> Node list \<times> Node list \<times> nat
    \<Rightarrow> error + Node list \<times> Node list \<times> nat" where
  "merge_pass current merge_index [] st = Inr st"
| "merge_pass current merge_index (i # is) (next_nodes, out, insertion_index) =
     (let j = merge_index ! i
      in if i = merge_index ! j then
           (if i > j then merge_pass current merge_index is (next_nodes, out, insertion_index)
            else if \<not> insertion_index \<ge> 2 then Inl AssertionFailed
            else let insertion_index' = insertion_index - 2;
                     out' = (out[insertion_index' := current ! i])
                              [insertion_index' + 1 := current ! j];
                     parent = \<lparr> bbox = BBox_extend (bbox (current ! i)) (bbox (current ! j)),
                                prim_count = 0, first_index = of_nat insertion_index' \<rparr>
                 in merge_pass current merge_index is
                      (next_nodes @ [parent], out', insertion_index'))
         else merge_pass current merge_index is
                (next_nodes @ [current ! i], out, insertion_index))"

definition merge_round :: "Node list \<Rightarrow> Node list \<Rightarrow> nat \<Rightarrow> error + Node list \<times> Node list \<times> nat" where
  "merge_round current out insertion_index =
     (let merge_index = map (find_closest_node current) [0..<length current]
      in merge_pass current merge_index [0..<length current] ([], out, insertion_index))"

text \<open>The \<^verbatim>\<open>while (current_nodes.size() > 1)\<close> loop. It need not end: \<open>None\<close> stands
  for a run that does not return.\<close>

partial_function (option) merge_loop :: "Node list \<times> Node list \<times> nat \<Rightarrow> (error + Node list \<times> Node list \<times> nat) option" where
  "merge_loop st =
     (case st of (current, out, insertion_index) \<Rightarrow>
        if length current > 1 then
          (case merge_round current out insertion_index of
             Inl e \<Rightarrow> Some (Inl e)
           | Inr st' \<Rightarrow> merge_loop st')
        else Some (Inr st))"

declare merge_loop.simps [code]

text \<open>The sorted permutation of the primitives (\<^verbatim>\<open>iota\<close>, then \<^verbatim>\<open>std::sort\<close> on the
  Morton codes). \<^verbatim>\<open>std::sort\<close> is a parameter: the C++ standard fixes what it returns
  only up to the order of equivalent elements.\<close>

definition ploc_prim_indices ::
  "((nat \<Rightarrow> nat \<Rightarrow> bool) \<Rightarrow> nat list \<Rightarrow> nat list) \<Rightarrow> Vec3 list \<Rightarrow> nat \<Rightarrow> nat list" where
  "ploc_prim_indices std_sort centers n =
     (let mortons = compute_mortons centers n
      in std_sort (\<lambda>i j. mortons ! i < mortons ! j) [0..<n])"

text \<open>\<^verbatim>\<open>Bvh::build\<close> of \<^verbatim>\<open>bvh_ploc.cpp\<close>.\<close>

definition Bvh_build_ploc ::
  "((nat \<Rightarrow> nat \<Rightarrow> bool) \<Rightarrow> nat list \<Rightarrow> nat list) \<Rightarrow> BBox list \<Rightarrow> Vec3 list \<Rightarrow> nat \<Rightarrow> (error + Bvh) option" where
  "Bvh_build_ploc std_sort bboxes centers n =
     (let indices = ploc_prim_indices std_sort centers n;
          current_nodes = map (\<lambda>i. \<lparr> bbox = bboxes ! (indices ! i), prim_count = 1,
                                      first_index = of_nat i \<rparr>) [0..<n];
          size = node_array_size n
      in if size > vector_max_size then Some (Inl LengthError)
         else (case merge_loop (current_nodes, replicate size Node_zero, size) of
                 None \<Rightarrow> None
               | Some (Inl e) \<Rightarrow> Some (Inl e)
               | Some (Inr (current, out, insertion_index)) \<Rightarrow>
                   if insertion_index \<noteq> 1 then Some (Inl AssertionFailed)
                   else Some (Inr \<lparr> nodes = out[0 := current ! 0], prim_indices = indices \<rparr>)))"

subsection \<open>Two sorts that meet the contract of \<^verbatim>\<open>std::sort\<close>\<close>

text \<open>Insertion sort by a comparator; it keeps equivalent elements in their order.
  Sorting the reversed input instead puts equivalent elements in reverse order.\<close>

fun insert_by :: "('a \<Rightarrow> 'a \<Rightarrow> bool) \<Rightarrow> 'a \<Rightarrow> 'a list \<Rightarrow> 'a list" where
  "insert_by cmp x [] = [x]"
| "insert_by cmp x (y # ys) = (if cmp y x then y # insert_by cmp x ys else x # y # ys)"

definition stable_sort :: "('a \<Rightarrow> 'a \<Rightarrow> bool) \<Rightarrow> 'a list \<Rightarrow> 'a list" where
  "stable_sort cmp xs = foldr (insert_by cmp) xs []"


text \<open>What \<^verbatim>\<open>std::sort\<close> with the comparator \<open>key i < key j\<close> guarantees: a permutation
  of the input, in ascending order of the key.\<close>

definition std_sort_contract :: "((nat \<Rightarrow> nat \<Rightarrow> bool) \<Rightarrow> nat list \<Rightarrow> nat list) \<Rightarrow> bool" where
  "std_sort_contract std_sort =
     (\<forall>(key :: nat \<Rightarrow> 32 word) xs.
        mset (std_sort (\<lambda>i j. key i < key j) xs) = mset xs
        \<and> sorted (map key (std_sort (\<lambda>i j. key i < key j) xs)))"

definition stable_partition :: "('a \<Rightarrow> bool) \<Rightarrow> 'a list \<Rightarrow> 'a list" where
  "stable_partition P xs = filter P xs @ filter (\<lambda>x. \<not> P x) xs"

text \<open>The x86 result of an out-of-range conversion to \<^verbatim>\<open>int\<close>: \<open>INT_MIN\<close>.\<close>

definition int_min :: "float \<Rightarrow> 32 word" where
  "int_min c = push_bit 31 1"

subsection \<open>Binned SAH\<close>

text \<open>In this source \<^verbatim>\<open>BBox::empty()\<close> is \<open>BBox_empty_sah\<close>.\<close>

record Bin =
  bin_bbox :: BBox
  bin_prim_count :: nat

definition Bin_default :: Bin where
  "Bin_default = \<lparr> bin_bbox = BBox_empty_sah, bin_prim_count = 0 \<rparr>"

definition Bin_extend :: "Bin \<Rightarrow> Bin \<Rightarrow> Bin" where
  "Bin_extend b other =
     \<lparr> bin_bbox = BBox_extend (bin_bbox b) (bin_bbox other),
       bin_prim_count = bin_prim_count b + bin_prim_count other \<rparr>"

definition Bin_cost :: "Bin \<Rightarrow> float" where
  "Bin_cost b = fmul (half_area (bin_bbox b)) (float_of_nat (bin_prim_count b))"

record Split =
  split_axis :: nat
  split_cost :: float
  right_bin :: nat

definition Split_default :: Split where
  "Split_default = \<lparr> split_axis = 0, split_cost = FLT_MAX, right_bin = 0 \<rparr>"

definition Split_bool :: "Split \<Rightarrow> bool" where
  "Split_bool s = (right_bin s \<noteq> 0)"

definition Split_less :: "Split \<Rightarrow> Split \<Rightarrow> bool" where
  "Split_less s other = (Split_bool s \<and> flt (split_cost s) (split_cost other))"

definition Split_min :: "Split \<Rightarrow> Split \<Rightarrow> Split" where
  "Split_min a b = (if Split_less b a then b else a)"

definition min_prims :: nat where "min_prims = 2"
definition max_prims :: nat where "max_prims = 8"
definition traversal_cost :: float where "traversal_cost = f1"

text \<open>\<^verbatim>\<open>find_best_split\<close>, in its three loops: binning, the sweep from the right, the sweep
  from the left.\<close>

definition fill_bins ::
  "(float \<Rightarrow> 32 word) \<Rightarrow> nat \<Rightarrow> Bvh \<Rightarrow> Node \<Rightarrow> BBox list \<Rightarrow> Vec3 list \<Rightarrow> Bin list" where
  "fill_bins oor axis bvh node bboxes centers =
     foldl (\<lambda>bins i.
              let p = prim_indices bvh ! i;
                  k = bin_index oor axis (bbox node) (centers ! p)
              in bins[k := \<lparr> bin_bbox = BBox_extend (bin_bbox (bins ! k)) (bboxes ! p),
                              bin_prim_count = bin_prim_count (bins ! k) + 1 \<rparr>])
           (replicate bin_count Bin_default) [0..<unat (prim_count node)]"

definition sweep_right :: "Bin list \<Rightarrow> float list" where
  "sweep_right bins =
     snd (foldl (\<lambda>(right_accum, right_cost) i.
                   let acc = Bin_extend right_accum (bins ! i)
                   in (acc, right_cost[i := Bin_cost acc]))
                (Bin_default, replicate bin_count f0) (rev [1..<bin_count]))"

definition sweep_left :: "nat \<Rightarrow> Bin list \<Rightarrow> float list \<Rightarrow> Split" where
  "sweep_left axis bins right_cost =
     snd (foldl (\<lambda>(left_accum, split) i.
                   let acc = Bin_extend left_accum (bins ! i);
                       cost = fadd (Bin_cost acc) (right_cost ! (i + 1))
                   in if flt cost (split_cost split)
                      then (acc, split\<lparr> split_cost := cost, right_bin := i + 1 \<rparr>)
                      else (acc, split))
                (Bin_default, Split_default\<lparr> split_axis := axis \<rparr>) [0..<bin_count - 1])"

definition find_best_split ::
  "(float \<Rightarrow> 32 word) \<Rightarrow> nat \<Rightarrow> Bvh \<Rightarrow> Node \<Rightarrow> BBox list \<Rightarrow> Vec3 list \<Rightarrow> Split" where
  "find_best_split oor axis bvh node bboxes centers =
     (let bins = fill_bins oor axis bvh node bboxes centers
      in sweep_left axis bins (sweep_right bins))"

text \<open>The first loop of \<^verbatim>\<open>build_recursive\<close>: the box of the node.\<close>

definition node_bbox :: "Bvh \<Rightarrow> Node \<Rightarrow> BBox list \<Rightarrow> BBox" where
  "node_bbox bvh node bboxes =
     foldl (\<lambda>b i. BBox_extend b (bboxes ! (prim_indices bvh ! i)))
           BBox_empty_sah [0..<unat (prim_count node)]"

text \<open>\<open>on_range lo len f xs\<close> applies \<open>f\<close> to the \<open>len\<close> elements of \<open>xs\<close> from position
  \<open>lo\<close>, as \<^verbatim>\<open>std::sort\<close> and \<^verbatim>\<open>std::partition\<close> do on an iterator range.\<close>

definition on_range :: "nat \<Rightarrow> nat \<Rightarrow> ('a list \<Rightarrow> 'a list) \<Rightarrow> 'a list \<Rightarrow> 'a list" where
  "on_range lo len f xs = take lo xs @ f (take len (drop lo xs)) @ drop (lo + len) xs"

text \<open>
  The decision of \<^verbatim>\<open>build_recursive\<close> between its first loop and the creation of the
  children: either the node stays a leaf, or the primitive indices are reordered and
  \<open>first_right\<close> is set. \<^verbatim>\<open>std::partition\<close> is a parameter like \<^verbatim>\<open>std::sort\<close>: the order
  inside the two groups is not fixed by the standard, the size of the first group is.
\<close>

datatype split_choice = Leaf | Children "nat list" nat

definition choose_split ::
  "((nat \<Rightarrow> nat \<Rightarrow> bool) \<Rightarrow> nat list \<Rightarrow> nat list) \<Rightarrow> ((nat \<Rightarrow> bool) \<Rightarrow> nat list \<Rightarrow> nat list)
   \<Rightarrow> (float \<Rightarrow> 32 word) \<Rightarrow> Bvh \<Rightarrow> Node \<Rightarrow> BBox list \<Rightarrow> Vec3 list \<Rightarrow> split_choice" where
  "choose_split std_sort std_partition oor bvh node bboxes centers =
     (let min_split = foldl (\<lambda>s axis. Split_min s (find_best_split oor axis bvh node bboxes centers))
                        Split_default [0..<3];
          leaf_cost = fmul (half_area (bbox node))
                        (fsub (float_of_nat (unat (prim_count node))) traversal_cost);
          lo = unat (first_index node);
          len = unat (prim_count node)
      in if \<not> Split_bool min_split \<or> fgt (split_cost min_split) leaf_cost then
           (if unat (prim_count node) > max_prims then
              (let axis = largest_axis (bbox node)
               in Children
                    (on_range lo len
                       (std_sort (\<lambda>i j. flt (vat (centers ! i) axis) (vat (centers ! j) axis)))
                       (prim_indices bvh))
                    (unat (first_index node + prim_count node div 2)))
            else Leaf)
         else
           (let pred = (\<lambda>i. bin_index oor (split_axis min_split) (bbox node) (centers ! i)
                              < right_bin min_split)
            in Children (on_range lo len (std_partition pred) (prim_indices bvh))
                 (lo + length (filter pred (take len (drop lo (prim_indices bvh)))))))"

text \<open>\<^verbatim>\<open>build_recursive\<close>; the state is the tree and \<open>node_count\<close>.\<close>

partial_function (option) build_recursive ::
  "((nat \<Rightarrow> nat \<Rightarrow> bool) \<Rightarrow> nat list \<Rightarrow> nat list) \<Rightarrow> ((nat \<Rightarrow> bool) \<Rightarrow> nat list \<Rightarrow> nat list)
   \<Rightarrow> (float \<Rightarrow> 32 word) \<Rightarrow> BBox list \<Rightarrow> Vec3 list \<Rightarrow> Bvh \<times> nat \<Rightarrow> nat
   \<Rightarrow> (error + Bvh \<times> nat) option" where
  "build_recursive std_sort std_partition oor bboxes centers st node_index =
     (case st of (bvh, node_count) \<Rightarrow>
        if \<not> node_index < length (nodes bvh) then Some (Inl OutOfRange)
        else if \<not> is_leaf (nodes bvh ! node_index) then Some (Inl AssertionFailed)
        else
          let node = (nodes bvh ! node_index)
                       \<lparr> bbox := node_bbox bvh (nodes bvh ! node_index) bboxes \<rparr>;
              bvh1 = bvh\<lparr> nodes := (nodes bvh)[node_index := node] \<rparr>
          in if unat (prim_count node) < min_prims then Some (Inr (bvh1, node_count))
             else
               (case choose_split std_sort std_partition oor bvh1 node bboxes centers of
                  Leaf \<Rightarrow> Some (Inr (bvh1, node_count))
                | Children indices first_right \<Rightarrow>
                    let first_child = node_count
                    in if \<not> first_child + 1 < length (nodes bvh1) then Some (Inl OutOfRange)
                       else
                         let left_count = (of_nat first_right :: 32 word) - first_index node;
                             left = (nodes bvh1 ! first_child)
                                      \<lparr> prim_count := left_count, first_index := first_index node \<rparr>;
                             right = (nodes bvh1 ! (first_child + 1))
                                      \<lparr> prim_count := prim_count node - left_count,
                                        first_index := of_nat first_right \<rparr>;
                             node' = node\<lparr> first_index := of_nat first_child, prim_count := 0 \<rparr>;
                             bvh2 = \<lparr> nodes = (((nodes bvh1)[first_child := left])
                                               [first_child + 1 := right])[node_index := node'],
                                      prim_indices = indices \<rparr>
                         in Option.bind
                              (build_recursive std_sort std_partition oor bboxes centers
                                 (bvh2, node_count + 2) first_child)
                              (\<lambda>r. case r of
                                      Inl e \<Rightarrow> Some (Inl e)
                                    | Inr st' \<Rightarrow>
                                        build_recursive std_sort std_partition oor bboxes centers
                                          st' (first_child + 1))))"

declare build_recursive.simps [code]

text \<open>\<^verbatim>\<open>Bvh::build\<close> of the binned SAH source.\<close>

definition Bvh_build_sah ::
  "((nat \<Rightarrow> nat \<Rightarrow> bool) \<Rightarrow> nat list \<Rightarrow> nat list) \<Rightarrow> ((nat \<Rightarrow> bool) \<Rightarrow> nat list \<Rightarrow> nat list)
   \<Rightarrow> (float \<Rightarrow> 32 word) \<Rightarrow> BBox list \<Rightarrow> Vec3 list \<Rightarrow> nat \<Rightarrow> (error + Bvh) option" where
  "Bvh_build_sah std_sort std_partition oor bboxes centers n =
     (let size = node_array_size n
      in if size > vector_max_size then Some (Inl LengthError)
         else
           let root = Node_zero\<lparr> prim_count := of_nat n, first_index := 0 \<rparr>;
               bvh = \<lparr> nodes = (replicate size Node_zero)[0 := root], prim_indices = [0..<n] \<rparr>
           in (case build_recursive std_sort std_partition oor bboxes centers (bvh, 1) 0 of
                 None \<Rightarrow> None
               | Some (Inl e) \<Rightarrow> Some (Inl e)
               | Some (Inr (bvh', node_count)) \<Rightarrow>
                   Some (Inr (bvh'\<lparr> nodes := take node_count (nodes bvh') \<rparr>))))"


text \<open>A box of side \<open>2^64\<close>, the unit box, and two centers.\<close>

definition big :: float where "big = Fin False (2 ^ 64)"
definition big_box :: BBox where "big_box = BBox (Vec3 f0 f0 f0) (Vec3 big big big)"
definition unit_box :: BBox where "unit_box = BBox (Vec3 f0 f0 f0) (Vec3 f1 f1 f1)"
definition c_a :: Vec3 where "c_a = Vec3 f0 f0 f0"
definition c_b :: Vec3 where "c_b = Vec3 f1 f1 f1"


section \<open>Traversal\<close>

text \<open>The loop over the primitives of a leaf; the state is the ray and the hit.\<close>

fun leaf_loop :: "Bvh \<Rightarrow> Triangle list \<Rightarrow> Node \<Rightarrow> nat list \<Rightarrow> Ray \<times> Hit \<Rightarrow> error + Ray \<times> Hit" where
  "leaf_loop bvh prims node [] st = Inr st"
| "leaf_loop bvh prims node (i # is) (ray, hit) =
     (let k = unat (first_index node) + i
      in if \<not> k < length (prim_indices bvh) then Inl OutOfRange
         else let p = prim_indices bvh ! k
              in if \<not> p < length prims then Inl OutOfRange
                 else let (found, ray') = Triangle_intersect (prims ! p) ray
                      in leaf_loop bvh prims node is
                           (ray', if found then hit\<lparr> prim_index := of_nat p \<rparr> else hit))"

text \<open>The \<^verbatim>\<open>while (!stack.empty())\<close> loop; the head of the list is the top of the stack.
  On a tree with a cycle the loop need not end: \<open>None\<close> stands for a run that does not
  return.\<close>

partial_function (option) traverse_loop ::
  "Bvh \<Rightarrow> Triangle list \<Rightarrow> 32 word list \<times> Ray \<times> Hit \<Rightarrow> (error + Hit \<times> Ray) option" where
  "traverse_loop bvh prims st =
     (case st of (stack, ray, hit) \<Rightarrow>
        (case stack of
           [] \<Rightarrow> Some (Inr (hit, ray))
         | t # rest \<Rightarrow>
             if \<not> unat t < length (nodes bvh) then Some (Inl OutOfRange)
             else let node = nodes bvh ! unat t
                  in if \<not> Intersection_bool (Node_intersect node ray)
                     then traverse_loop bvh prims (rest, ray, hit)
                     else if is_leaf node then
                       (case leaf_loop bvh prims node [0..<unat (prim_count node)] (ray, hit) of
                          Inl e \<Rightarrow> Some (Inl e)
                        | Inr (ray', hit') \<Rightarrow> traverse_loop bvh prims (rest, ray', hit'))
                     else traverse_loop bvh prims
                            ((first_index node + 1) # first_index node # rest, ray, hit)))"

declare traverse_loop.simps [code]

definition traverse :: "Bvh \<Rightarrow> Ray \<Rightarrow> Triangle list \<Rightarrow> (error + Hit \<times> Ray) option" where
  "traverse bvh ray prims = traverse_loop bvh prims ([0], ray, Hit_none)"

definition Bvh_empty :: Bvh where
  "Bvh_empty = \<lparr> nodes = [], prim_indices = [] \<rparr>"


text \<open>Two leaves and a parent over the box of side \<open>2^64\<close>.\<close>

definition big_leaf0 :: Node where
  "big_leaf0 = \<lparr> bbox = big_box, prim_count = 1, first_index = 0 \<rparr>"

definition big_leaf1 :: Node where
  "big_leaf1 = \<lparr> bbox = big_box, prim_count = 1, first_index = 1 \<rparr>"

definition parent_big :: Node where
  "parent_big = \<lparr> bbox = big_box, prim_count = 0, first_index = 1 \<rparr>"

section \<open>Well-formed trees and the state of a traversal\<close>

text \<open>
  The invariants of the data model that a traversal relies on: the tree has a root and at
  most \<open>2^32\<close> nodes; the range of a leaf lies inside \<open>prim_indices\<close>; the children of an
  internal node come after it in the array; every primitive index names a primitive and is
  not the no-hit sentinel.
\<close>

definition well_formed :: "Bvh \<Rightarrow> Triangle list \<Rightarrow> bool" where
  "well_formed bvh prims =
     (nodes bvh \<noteq> [] \<and> length (nodes bvh) \<le> 2 ^ 32
      \<and> (\<forall>i \<in> set [0..<length (nodes bvh)].
            if is_leaf (nodes bvh ! i)
            then unat (first_index (nodes bvh ! i)) + unat (prim_count (nodes bvh ! i))
                   \<le> length (prim_indices bvh)
            else i < unat (first_index (nodes bvh ! i))
                 \<and> unat (first_index (nodes bvh ! i)) + 1 < length (nodes bvh))
      \<and> (\<forall>p \<in> set (prim_indices bvh). p < length prims \<and> p < 2 ^ 32 - 1))"

text \<open>
  What holds of the ray and the hit during a traversal that started with the ray \<open>r0\<close>:
  origin, direction and \<open>tmin\<close> are those of \<open>r0\<close>; without a hit the ray is \<open>r0\<close>; with
  a hit, \<open>r0\<close> meets the recorded primitive, \<open>tmax\<close> is the distance at which it does, and
  that distance lies in the interval of \<open>r0\<close>.
\<close>

definition hit_state :: "Ray \<Rightarrow> Triangle list \<Rightarrow> Ray \<Rightarrow> Hit \<Rightarrow> bool" where
  "hit_state r0 prims ray hit =
     (org ray = org r0 \<and> dir ray = dir r0 \<and> tmin ray = tmin r0
      \<and> (if Hit_bool hit
          then unat (prim_index hit) < length prims
               \<and> fst (Triangle_intersect (prims ! unat (prim_index hit)) r0)
               \<and> tmax ray = tri_t (prims ! unat (prim_index hit)) r0
               \<and> fle (tmax ray) (tmax r0) \<and> fge (tmax ray) (tmin r0)
          else ray = r0))"

text \<open>
  The nodes a ray is led to from the node \<open>a\<close>: \<open>a\<close> itself, and both children of every
  internal node it is led to whose box it meets. A primitive is a candidate when it lies in
  the range of a leaf the ray is led to and whose box it meets: these are the primitives
  that a traversal with this ray, started at \<open>a\<close>, tests.
\<close>

inductive reaches :: "Bvh \<Rightarrow> Ray \<Rightarrow> nat \<Rightarrow> nat \<Rightarrow> bool" for bvh ray a where
  reaches_self: "reaches bvh ray a a"
| reaches_left:
    "reaches bvh ray a i \<Longrightarrow> i < length (nodes bvh) \<Longrightarrow> \<not> is_leaf (nodes bvh ! i) \<Longrightarrow>
     Intersection_bool (Node_intersect (nodes bvh ! i) ray) \<Longrightarrow>
     reaches bvh ray a (unat (first_index (nodes bvh ! i)))"
| reaches_right:
    "reaches bvh ray a i \<Longrightarrow> i < length (nodes bvh) \<Longrightarrow> \<not> is_leaf (nodes bvh ! i) \<Longrightarrow>
     Intersection_bool (Node_intersect (nodes bvh ! i) ray) \<Longrightarrow>
     reaches bvh ray a (unat (first_index (nodes bvh ! i) + 1))"

inductive candidate :: "Bvh \<Rightarrow> Ray \<Rightarrow> nat \<Rightarrow> nat \<Rightarrow> bool" for bvh ray a where
  candidateI:
    "reaches bvh ray a i \<Longrightarrow> i < length (nodes bvh) \<Longrightarrow> is_leaf (nodes bvh ! i) \<Longrightarrow>
     Intersection_bool (Node_intersect (nodes bvh ! i) ray) \<Longrightarrow>
     k < unat (prim_count (nodes bvh ! i)) \<Longrightarrow>
     candidate bvh ray a (prim_indices bvh ! (unat (first_index (nodes bvh ! i)) + k))"

text \<open>The recorded primitive is one that the ray \<open>r0\<close> leads to from the root.\<close>

definition hit_found :: "Bvh \<Rightarrow> Ray \<Rightarrow> Hit \<Rightarrow> bool" where
  "hit_found bvh r0 hit = (Hit_bool hit \<longrightarrow> candidate bvh r0 0 (unat (prim_index hit)))"

text \<open>
  \<open>not_closer\<close>: if \<open>r0\<close> meets the primitive \<open>p\<close>, then there is a hit and \<open>tmax\<close> is at
  most the distance of \<open>p\<close>. \<open>later\<close>: from the first state to the second a hit is kept
  and \<open>tmax\<close> does not grow.
\<close>

definition not_closer :: "Ray \<Rightarrow> Triangle list \<Rightarrow> Ray \<Rightarrow> Hit \<Rightarrow> nat \<Rightarrow> bool" where
  "not_closer r0 prims ray hit p =
     (fst (Triangle_intersect (prims ! p) r0)
        \<longrightarrow> Hit_bool hit \<and> fle (tmax ray) (tri_t (prims ! p) r0))"

definition later :: "Ray \<Rightarrow> Hit \<Rightarrow> Ray \<Rightarrow> Hit \<Rightarrow> bool" where
  "later ray hit ray' hit' =
     ((Hit_bool hit \<longrightarrow> Hit_bool hit') \<and> (ray' = ray \<or> fle (tmax ray') (tmax ray)))"

text \<open>The measure that decreases with every round of the traversal loop.\<close>

definition stack_weight :: "nat \<Rightarrow> 32 word list \<Rightarrow> nat" where
  "stack_weight n stack = sum_list (map (\<lambda>w. 2 ^ (n - unat w)) stack)"

text \<open>Two triangles, at \<open>z = 0\<close> and \<open>z = -1\<close>, the tree over them, and a ray from
  \<open>z = 2\<close> towards \<open>-z\<close>.\<close>

definition tri2 :: Triangle where
  "tri2 = \<lparr> p0 = Vec3 (Fin True 1) f0 (Fin True 1), p1 = Vec3 f1 f0 (Fin True 1),
            p2 = Vec3 f0 f1 (Fin True 1) \<rparr>"

definition ray2 :: Ray where
  "ray2 = \<lparr> org = Vec3 f0 (Fin False (1 / 4)) (Fin False 2), dir = Vec3 f0 f0 (Fin True 1),
            tmin = f0, tmax = FLT_MAX \<rparr>"

definition two_tri_bvh :: Bvh where
  "two_tri_bvh =
     \<lparr> nodes =
         [\<lparr> bbox = BBox (Vec3 (Fin True 1) f0 (Fin True 1)) (Vec3 f1 f1 f0),
            prim_count = 0, first_index = 1 \<rparr>,
          \<lparr> bbox = BBox (Vec3 (Fin True 1) f0 f0) (Vec3 f1 f1 f0),
            prim_count = 1, first_index = 0 \<rparr>,
          \<lparr> bbox = BBox (Vec3 (Fin True 1) f0 (Fin True 1)) (Vec3 f1 f1 (Fin True 1)),
            prim_count = 1, first_index = 1 \<rparr>],
       prim_indices = [0, 1] \<rparr>"

section \<open>The empty box\<close>

lemma FLT_MAX_mag_pos: "0 < FLT_MAX_mag"
  by (simp add: FLT_MAX_mag_def)

lemma std_min_FLT_MAX: "is_finite c \<Longrightarrow> std_min FLT_MAX c = c"
  using FLT_MAX_mag_pos by (cases c) (auto simp: std_min_def flt_def FLT_MAX_def)

lemma std_max_neg_FLT_MAX: "is_finite c \<Longrightarrow> std_max (fneg FLT_MAX) c = c"
  using FLT_MAX_mag_pos by (cases c) (auto simp: std_max_def flt_def FLT_MAX_def)

lemma vmin_FLT_MAX: "finite_vec p \<Longrightarrow> vmin (Vec3_splat FLT_MAX) p = p"
  by (cases p) (simp add: vmin_def Vec3_splat_def finite_vec_def std_min_FLT_MAX)

lemma vmax_neg_FLT_MAX: "finite_vec p \<Longrightarrow> vmax (Vec3_splat (fneg FLT_MAX)) p = p"
  by (cases p) (simp add: vmax_def Vec3_splat_def finite_vec_def std_max_neg_FLT_MAX)

lemma BBox_extend_empty: "finite_box b \<Longrightarrow> BBox_extend BBox_empty b = b"
  by (cases b) (simp add: BBox_extend_def BBox_empty_def finite_box_def vmin_FLT_MAX vmax_neg_FLT_MAX)

text \<open>
  Claim C7, as amended. \<^verbatim>\<open>BBox::empty()\<close> of \<^verbatim>\<open>bvh_ploc.cpp\<close> is the box with minimum
  \<open>(+FLT_MAX, +FLT_MAX, +FLT_MAX)\<close> and maximum \<open>(-FLT_MAX, -FLT_MAX, -FLT_MAX)\<close>, the
  largest finite float and not an infinity. Extending it by a box, or by a point, whose
  coordinates are all finite floats yields exactly the bound of that operand.
\<close>

theorem BBox_empty_left_identity:
  "BBox_empty = BBox (Vec3 FLT_MAX FLT_MAX FLT_MAX)
                     (Vec3 (fneg FLT_MAX) (fneg FLT_MAX) (fneg FLT_MAX))
   \<and> (finite_box b \<longrightarrow> BBox_extend BBox_empty b = b)
   \<and> (finite_vec p \<longrightarrow> BBox_extend_point BBox_empty p = BBox p p)"
  by (simp add: BBox_extend_empty BBox_extend_point_def BBox_point_def finite_box_def)
     (simp add: BBox_empty_def Vec3_splat_def)

theorem BBox_empty_left_identity_witness:
  "finite_box (BBox (Vec3 f0 f0 f0) (Vec3 f1 f1 f1))
   \<and> BBox_extend BBox_empty (BBox (Vec3 f0 f0 f0) (Vec3 f1 f1 f1)) = BBox (Vec3 f0 f0 f0) (Vec3 f1 f1 f1)
   \<and> finite_vec (Vec3 f0 f1 f0)
   \<and> BBox_extend_point BBox_empty (Vec3 f0 f1 f0) = BBox (Vec3 f0 f1 f0) (Vec3 f0 f1 f0)"
proof -
  have fb: "finite_box (BBox (Vec3 f0 f0 f0) (Vec3 f1 f1 f1))"
    by (simp add: finite_box_def finite_vec_def f0_def f1_def FLT_MAX_mag_def)
  have fv: "finite_vec (Vec3 f0 f1 f0)"
    by (simp add: finite_vec_def f0_def f1_def FLT_MAX_mag_def)
  show ?thesis
    using fb fv
      BBox_empty_left_identity [of "BBox (Vec3 f0 f0 f0) (Vec3 f1 f1 f1)" "Vec3 f0 f1 f0"]
    by simp
qed

text \<open>
  Claim C7, as stated, fails: the empty box is not the box with minimum \<open>+\<infinity>\<close> and maximum
  \<open>-\<infinity>\<close>, and extending it by the point \<open>(+\<infinity>, +\<infinity>, +\<infinity>)\<close> does not give the bound of
  that point.
\<close>

theorem BBox_empty_not_infinite:
  "BBox_empty \<noteq> BBox (Vec3 PInf PInf PInf) (Vec3 MInf MInf MInf)
   \<and> BBox_extend_point BBox_empty (Vec3 PInf PInf PInf) \<noteq> BBox (Vec3 PInf PInf PInf) (Vec3 PInf PInf PInf)"
  by (simp add: BBox_empty_def Vec3_splat_def FLT_MAX_def PInf_def MInf_def BBox_extend_point_def
      BBox_point_def BBox_extend_def vmin_def vmax_def std_min_def std_max_def flt_def)

section \<open>Order on floats\<close>

lemma fle_refl: "a \<noteq> NaN \<Longrightarrow> fle a a"
  by (simp add: fle_def)

lemma fle_trans: "fle a b \<Longrightarrow> fle b c \<Longrightarrow> fle a c"
  by (auto simp: fle_def)

lemma not_flt_fle: "a \<noteq> NaN \<Longrightarrow> b \<noteq> NaN \<Longrightarrow> \<not> flt a b \<Longrightarrow> fle b a"
  by (auto simp: fle_def flt_def)

lemma flt_fle: "flt a b \<Longrightarrow> fle a b"
  by (auto simp: fle_def flt_def)

lemma fge_nan: "\<not> fge NaN b" "\<not> fge a NaN" "\<not> fle NaN b" "\<not> fle a NaN"
  by (simp_all add: fge_def fle_def)

section \<open>The slab test\<close>

lemma robust_max_nan: "a = NaN \<or> b = NaN \<Longrightarrow> robust_max a b = b"
  by (auto simp: robust_max_def fgt_def flt_def)

lemma robust_min_nan: "a = NaN \<or> b = NaN \<Longrightarrow> robust_min a b = b"
  by (auto simp: robust_min_def flt_def)

lemma robust_max_step:
  assumes "max_of m cs"
  shows "max_of (robust_max a m) (a # cs)"
proof (cases "fgt a m")
  case True
  then have a: "a \<noteq> NaN" and am: "fle m a"
    by (auto simp: fgt_def flt_def fle_def)
  have "\<forall>c \<in> set cs. c \<noteq> NaN \<longrightarrow> fle c a"
    using assms am by (auto simp: max_of_def intro: fle_trans)
  with True a show ?thesis
    by (simp add: robust_max_def max_of_def fle_refl)
next
  case False
  have "a \<noteq> NaN \<longrightarrow> fle a m"
    using False assms by (auto simp: fgt_def max_of_def intro: not_flt_fle)
  with False assms show ?thesis
    by (simp add: robust_max_def max_of_def)
qed

lemma robust_min_step:
  assumes "min_of m cs"
  shows "min_of (robust_min a m) (a # cs)"
proof (cases "flt a m")
  case True
  then have a: "a \<noteq> NaN" and am: "fle a m"
    by (auto simp: flt_def fle_def)
  have "\<forall>c \<in> set cs. c \<noteq> NaN \<longrightarrow> fle a c"
    using assms am by (auto simp: min_of_def intro: fle_trans)
  with True a show ?thesis
    by (simp add: robust_min_def min_of_def fle_refl)
next
  case False
  have "a \<noteq> NaN \<longrightarrow> fle m a"
    using False assms by (auto simp: min_of_def intro: not_flt_fle)
  with False assms show ?thesis
    by (simp add: robust_min_def min_of_def)
qed

lemma max_of_single: "c \<noteq> NaN \<Longrightarrow> max_of c [c]"
  by (simp add: max_of_def fle_refl)

lemma min_of_single: "c \<noteq> NaN \<Longrightarrow> min_of c [c]"
  by (simp add: min_of_def fle_refl)

lemma Node_intersect_tmin:
  "i_tmin (Node_intersect node ray) =
     robust_max (v0 (t_near node ray)) (robust_max (v1 (t_near node ray))
       (robust_max (v2 (t_near node ray)) (tmin ray)))"
  by (simp add: Node_intersect_def t_near_def Let_def vat_def)

lemma Node_intersect_tmax:
  "i_tmax (Node_intersect node ray) =
     robust_min (v0 (t_far node ray)) (robust_min (v1 (t_far node ray))
       (robust_min (v2 (t_far node ray)) (tmax ray)))"
  by (simp add: Node_intersect_def t_far_def Let_def vat_def)

text \<open>
  Claim C3, as amended. The slab test reports a hit iff \<open>t_enter \<le> t_exit\<close>. When
  \<open>ray.tmin\<close> is not NaN, \<open>t_enter\<close> is the greatest of \<open>ray.tmin\<close> and the components of
  \<open>t_near\<close> that are not NaN; when \<open>ray.tmax\<close> is not NaN, \<open>t_exit\<close> is the least of
  \<open>ray.tmax\<close> and the components of \<open>t_far\<close> that are not NaN; both are computed with
  \<open>ray.inv_dir()\<close>. The functions \<open>robust_min\<close> and \<open>robust_max\<close> return their right
  operand whenever an operand is NaN: the operand that is not NaN when the NaN is on the
  left, the NaN when it is on the right.
\<close>

theorem slab_test:
  "(Intersection_bool (Node_intersect node ray)
      \<longleftrightarrow> fle (i_tmin (Node_intersect node ray)) (i_tmax (Node_intersect node ray)))
   \<and> (tmin ray \<noteq> NaN \<longrightarrow>
        max_of (i_tmin (Node_intersect node ray))
          [v0 (t_near node ray), v1 (t_near node ray), v2 (t_near node ray), tmin ray])
   \<and> (tmax ray \<noteq> NaN \<longrightarrow>
        min_of (i_tmax (Node_intersect node ray))
          [v0 (t_far node ray), v1 (t_far node ray), v2 (t_far node ray), tmax ray])
   \<and> (a = NaN \<or> b = NaN \<longrightarrow> robust_min a b = b \<and> robust_max a b = b)"
proof (intro conjI impI)
  show "Intersection_bool (Node_intersect node ray)
      \<longleftrightarrow> fle (i_tmin (Node_intersect node ray)) (i_tmax (Node_intersect node ray))"
    by (simp add: Intersection_bool_def)
next
  assume "tmin ray \<noteq> NaN"
  then show "max_of (i_tmin (Node_intersect node ray))
          [v0 (t_near node ray), v1 (t_near node ray), v2 (t_near node ray), tmin ray]"
    unfolding Node_intersect_tmin
    by (intro robust_max_step max_of_single)
next
  assume "tmax ray \<noteq> NaN"
  then show "min_of (i_tmax (Node_intersect node ray))
          [v0 (t_far node ray), v1 (t_far node ray), v2 (t_far node ray), tmax ray]"
    unfolding Node_intersect_tmax
    by (intro robust_min_step min_of_single)
next
  assume "a = NaN \<or> b = NaN"
  then show "robust_min a b = b" by (rule robust_min_nan)
next
  assume "a = NaN \<or> b = NaN"
  then show "robust_max a b = b" by (rule robust_max_nan)
qed

theorem slab_test_witness:
  "tmin z_ray \<noteq> NaN \<and> tmax z_ray \<noteq> NaN
   \<and> max_of (i_tmin (Node_intersect unit_box_node z_ray))
        [v0 (t_near unit_box_node z_ray), v1 (t_near unit_box_node z_ray),
         v2 (t_near unit_box_node z_ray), tmin z_ray]
   \<and> min_of (i_tmax (Node_intersect unit_box_node z_ray))
        [v0 (t_far unit_box_node z_ray), v1 (t_far unit_box_node z_ray),
         v2 (t_far unit_box_node z_ray), tmax z_ray]
   \<and> robust_min NaN f1 = f1 \<and> robust_max NaN f1 = f1"
  using slab_test [of unit_box_node z_ray NaN f1]
  by (simp add: z_ray_def f0_def)

text \<open>
  Claim C3, as stated, fails: with the NaN as the right operand and a number as the left
  one, \<open>robust_min\<close> and \<open>robust_max\<close> return the NaN.
\<close>

theorem robust_min_max_right_nan:
  "robust_min f1 NaN = NaN \<and> robust_max f1 NaN = NaN"
  by (simp add: robust_min_def robust_max_def fgt_def flt_def)

lemma unit_box_hit:
  "Node_intersect unit_box_node z_ray = \<lparr> i_tmin = Fin False 1, i_tmax = Fin False 2 \<rparr>"
  by code_simp

section \<open>The triangle test\<close>

lemma Triangle_intersect_unfold:
  "Triangle_intersect tri ray =
     (if fge (tri_u tri ray) f0 \<and> fge (tri_v tri ray) f0 \<and> fge (tri_w tri ray) f0
         \<and> fge (tri_t tri ray) (tmin ray) \<and> fle (tri_t tri ray) (tmax ray)
      then (True, ray\<lparr> tmax := tri_t tri ray \<rparr>) else (False, ray))"
  by (simp add: Triangle_intersect_def tri_u_def tri_v_def tri_w_def tri_t_def tri_inv_det_def
      Let_def)

text \<open>
  Claim C4. \<open>Triangle::intersect\<close> returns true iff \<open>u \<ge> 0\<close>, \<open>v \<ge> 0\<close>, \<open>w \<ge> 0\<close> and
  \<open>ray.tmin \<le> t \<le> ray.tmax\<close>; a NaN among \<open>t\<close>, \<open>u\<close>, \<open>v\<close> makes it return false; when it
  returns true the ray it leaves is the given one with \<open>tmax\<close> set to \<open>t\<close>, and when it
  returns false the ray is the given one.
\<close>

theorem Triangle_intersect_spec:
  "(fst (Triangle_intersect tri ray) \<longleftrightarrow>
      fge (tri_u tri ray) f0 \<and> fge (tri_v tri ray) f0 \<and> fge (tri_w tri ray) f0
      \<and> fge (tri_t tri ray) (tmin ray) \<and> fle (tri_t tri ray) (tmax ray))
   \<and> (tri_t tri ray = NaN \<or> tri_u tri ray = NaN \<or> tri_v tri ray = NaN
        \<longrightarrow> \<not> fst (Triangle_intersect tri ray))
   \<and> snd (Triangle_intersect tri ray) =
       (if fst (Triangle_intersect tri ray) then ray\<lparr> tmax := tri_t tri ray \<rparr> else ray)"
  by (auto simp: Triangle_intersect_unfold fge_nan)

lemma tri_point_u: "tri_u tri_point ray1 = NaN"
  by code_simp

theorem Triangle_intersect_spec_witness:
  "tri_u tri_point ray1 = NaN \<and> \<not> fst (Triangle_intersect tri_point ray1)
   \<and> snd (Triangle_intersect tri_point ray1) = ray1"
  using Triangle_intersect_spec [of tri_point ray1] tri_point_u by (simp add: fge_nan)

lemma tri1_hit: "Triangle_intersect tri1 ray1 = (True, ray1\<lparr> tmax := f1 \<rparr>)"
  by code_simp

section \<open>Bin indices\<close>

lemma length_fill_bins: "length (fill_bins oor axis bvh node bboxes centers) = bin_count"
proof -
  have "length (foldl (\<lambda>bins i.
              let p = prim_indices bvh ! i;
                  k = bin_index oor axis (bbox node) (centers ! p)
              in bins[k := \<lparr> bin_bbox = BBox_extend (bin_bbox (bins ! k)) (bboxes ! p),
                              bin_prim_count = bin_prim_count (bins ! k) + 1 \<rparr>]) bs is)
        = length bs" for bs "is"
    by (induction "is" arbitrary: bs) (simp_all add: Let_def)
  then show ?thesis by (simp add: fill_bins_def)
qed


text \<open>
  Claim C10. For every axis, box and centroid, and whatever integer the conversion of an
  out-of-range, infinite or NaN product yields, \<open>bin_index\<close> returns a value between 0 and
  \<open>bin_count - 1\<close>; the array of bins that \<open>find_best_split\<close> fills has \<open>bin_count\<close>
  elements throughout, so the index is inside it.
\<close>

theorem bin_index_in_range:
  "bin_index oor axis b center \<le> bin_count - 1
   \<and> bin_index oor axis b center < bin_count
   \<and> length (fill_bins oor axis' bvh node bboxes centers) = bin_count"
  by (simp add: length_fill_bins) (simp add: bin_index_def bin_count_def Let_def)

section \<open>Building from no primitive\<close>

lemma node_array_size_0: "node_array_size 0 = 2 ^ 64 - 1"
  by (simp add: node_array_size_def size_t_sub_def)

lemma node_array_size_0_too_big: "node_array_size 0 > vector_max_size"
  by (simp add: node_array_size_0 vector_max_size_def)

lemma Bvh_build_ploc_0: "Bvh_build_ploc std_sort bboxes centers 0 = Some (Inl LengthError)"
  using node_array_size_0_too_big by (simp add: Bvh_build_ploc_def Let_def)

lemma Bvh_build_sah_0:
  "Bvh_build_sah std_sort std_partition oor bboxes centers 0 = Some (Inl LengthError)"
  using node_array_size_0_too_big by (simp add: Bvh_build_sah_def Let_def)

lemma traverse_empty: "traverse Bvh_empty ray prims = Some (Inl OutOfRange)"
  by (simp add: traverse_def Bvh_empty_def traverse_loop.simps)


text \<open>
  Claim C5, as amended. With \<open>N = 0\<close> neither builder returns a tree: the size
  \<open>2 * N - 1\<close> of the node array wraps around to \<open>2^64 - 1\<close> and \<open>resize\<close> fails. A
  traversal of a tree without nodes reads \<open>nodes[0]\<close>, which is out of range. (The driver
  leaves with status 1 when no triangle was loaded, before it builds.)
\<close>

theorem build_zero_primitives:
  "Bvh_build_sah std_sort std_partition oor bboxes centers 0 = Some (Inl LengthError)
   \<and> Bvh_build_ploc std_sort bboxes centers 0 = Some (Inl LengthError)
   \<and> traverse Bvh_empty ray prims = Some (Inl OutOfRange)"
  by (simp add: Bvh_build_ploc_0 Bvh_build_sah_0 traverse_empty)


text \<open>
  Claim C5, as stated, fails: for \<open>N = 0\<close> neither builder returns the tree without
  nodes and indices, and the traversal of that tree does not return the no-hit sentinel.
\<close>

theorem build_zero_not_empty_bvh:
  "Bvh_build_sah stable_sort stable_partition int_min [] [] 0 \<noteq> Some (Inr Bvh_empty)
   \<and> Bvh_build_ploc stable_sort [] [] 0 \<noteq> Some (Inr Bvh_empty)
   \<and> traverse Bvh_empty ray1 [] \<noteq> Some (Inr (Hit_none, ray1))"
  by (simp add: Bvh_build_ploc_0 Bvh_build_sah_0 traverse_empty)


section \<open>The order of the primitives in PLOC\<close>

lemma insert_by_key: "insert_by (\<lambda>i j. key i < key j) x ys = insort_key key x ys"
  for key :: "'a \<Rightarrow> 'b::linorder"
  by (induction ys) (auto simp: not_less)

lemma stable_sort_key: "stable_sort (\<lambda>i j. key i < key j) xs = sort_key key xs"
  for key :: "'a \<Rightarrow> 'b::linorder"
  by (induction xs) (simp_all add: stable_sort_def insert_by_key sort_key_def)

lemma stable_sort_contract: "std_sort_contract stable_sort"
  by (simp add: std_sort_contract_def stable_sort_key)



lemma ploc_prim_indices_mset:
  "std_sort_contract std_sort \<Longrightarrow> mset (ploc_prim_indices std_sort centers n) = mset [0..<n]"
  by (simp add: ploc_prim_indices_def std_sort_contract_def Let_def)





lemma upt_2: "[0..<2] = [0, Suc 0]"
  by (simp add: upt_conv_Cons numeral_2_eq_2)

lemma node_array_size_1: "node_array_size (Suc 0) = Suc 0"
  by (simp add: node_array_size_def size_t_sub_def)









section \<open>The PLOC merge loop on boxes whose half area overflows\<close>

lemma half_area_big: "half_area big_box = Infty False"
  by code_simp

lemma extend_big: "BBox_extend big_box big_box = big_box"
  by (simp add: BBox_extend_def big_box_def vmin_def vmax_def std_min_def std_max_def flt_def)

lemma not_flt_inf_max: "\<not> flt (Infty False) FLT_MAX"
  by (simp add: flt_def FLT_MAX_def)

lemma find_closest_big:
  assumes "bbox a = big_box" "bbox b = big_box"
  shows "find_closest_node [a, b] 0 = 0" "find_closest_node [a, b] (Suc 0) = 0"
  using assms
  by (simp_all add: find_closest_node_def search_radius_def upt_2 extend_big half_area_big
      not_flt_inf_max)

lemma round1:
  "merge_round [big_leaf0, big_leaf1] (replicate 3 Node_zero) 3
     = Inr ([parent_big, big_leaf1], [Node_zero, big_leaf0, big_leaf0], 1)"
  by (simp add: merge_round_def upt_2 find_closest_big big_leaf0_def big_leaf1_def parent_big_def extend_big
      numeral_3_eq_3)

lemma round2:
  "merge_round [parent_big, big_leaf1] [Node_zero, big_leaf0, big_leaf0] (Suc 0)
     = Inl AssertionFailed"
  by (simp add: merge_round_def upt_2 find_closest_big big_leaf0_def big_leaf1_def parent_big_def)

lemma loop_big:
  "merge_loop ([big_leaf0, big_leaf1], replicate 3 Node_zero, 3) = Some (Inl AssertionFailed)"
  apply (subst merge_loop.simps)
  apply (simp add: round1)
  apply (subst merge_loop.simps)
  apply (simp add: round2)
  done


text \<open>
  Claim C6 fails on two primitives whose boxes have side \<open>2^64\<close>: the half area of their
  union overflows to \<open>+\<infinity>\<close>, which is not below \<open>FLT_MAX\<close>, so \<open>find_closest_node\<close> returns
  its initial \<open>best_index = 0\<close> for both. The first round merges node 0 with itself, the
  working sequence keeps its length 2, and in the second round the assertion
  \<open>insertion_index >= 2\<close> fails.
\<close>

theorem ploc_self_merge:
  "find_closest_node [big_leaf0, big_leaf1] 0 = 0
   \<and> merge_round [big_leaf0, big_leaf1] (replicate 3 Node_zero) 3
       = Inr ([parent_big, big_leaf1], [Node_zero, big_leaf0, big_leaf0], 1)
   \<and> merge_loop ([big_leaf0, big_leaf1], replicate 3 Node_zero, 3)
       = Some (Inl AssertionFailed)"
proof -
  have "bbox big_leaf0 = big_box" "bbox big_leaf1 = big_box"
    by (simp_all add: big_leaf0_def big_leaf1_def)
  then have "find_closest_node [big_leaf0, big_leaf1] 0 = 0"
    by (rule find_closest_big)
  with round1 loop_big show ?thesis by simp
qed

lemma node_array_size_2: "node_array_size 2 = 3"
  by (simp add: node_array_size_def size_t_sub_def)

lemma perm2_nth:
  assumes "mset xs = mset [0..<2]" "i < 2"
  shows "xs ! i < 2"
proof -
  have "length xs = 2" using assms(1) by (metis length_upt mset_eq_length diff_zero)
  then have "xs ! i \<in> set xs" using assms(2) by simp
  also have "set xs = set [0..<2]" using assms(1) by (rule mset_eq_setD)
  finally show ?thesis by simp
qed

lemma big_leaves:
  assumes "mset ix = mset [0..<2]"
  shows "map (\<lambda>i. \<lparr> bbox = [big_box, big_box] ! (ix ! i), prim_count = 1,
                     first_index = of_nat i \<rparr>) [0..<2] = [big_leaf0, big_leaf1]"
proof -
  have "ix ! 0 < 2" "ix ! Suc 0 < 2" using perm2_nth [OF assms] by simp_all
  then have "[big_box, big_box] ! (ix ! 0) = big_box" "[big_box, big_box] ! (ix ! Suc 0) = big_box"
    by (auto simp: less_Suc_eq numeral_2_eq_2)
  then show ?thesis by (simp add: upt_2 big_leaf0_def big_leaf1_def)
qed


text \<open>
  Claim C2 fails on the same input: the PLOC build of two primitives with boxes of side
  \<open>2^64\<close> stops at a failed assertion and returns no tree.
\<close>

theorem ploc_build_big_boxes:
  "Bvh_build_ploc stable_sort [big_box, big_box] [c_a, c_b] 2 = Some (Inl AssertionFailed)"
proof -
  have "mset (ploc_prim_indices stable_sort [c_a, c_b] 2) = mset [0..<2]"
    by (rule ploc_prim_indices_mset [OF stable_sort_contract])
  note lv = big_leaves [OF this]
  have "3 \<le> vector_max_size" by (simp add: vector_max_size_def)
  then show ?thesis
    by (simp add: Bvh_build_ploc_def Let_def lv node_array_size_2 loop_big)
qed


section \<open>The box of a node in the binned SAH builder\<close>

lemma std_min_neg_FLT_MAX: "is_finite c \<Longrightarrow> std_min (fneg FLT_MAX) c = fneg FLT_MAX"
  using FLT_MAX_mag_pos by (cases c) (auto simp: std_min_def flt_def FLT_MAX_def)

lemma std_max_FLT_MAX: "is_finite c \<Longrightarrow> std_max FLT_MAX c = FLT_MAX"
  using FLT_MAX_mag_pos by (cases c) (auto simp: std_max_def flt_def FLT_MAX_def)

lemma BBox_extend_empty_sah: "finite_box b \<Longrightarrow> BBox_extend BBox_empty_sah b = BBox_empty_sah"
  by (cases b)
    (simp add: BBox_extend_def BBox_empty_sah_def finite_box_def finite_vec_def vmin_def
      vmax_def Vec3_splat_def std_min_neg_FLT_MAX std_max_FLT_MAX)

lemma node_bbox_first_index:
  "node_bbox bvh (node\<lparr> first_index := k \<rparr>) bboxes = node_bbox bvh node bboxes"
  by (simp add: node_bbox_def)

lemma node_bbox_finite:
  assumes "\<forall>i < unat (prim_count node). finite_box (bboxes ! (prim_indices bvh ! i))"
  shows "node_bbox bvh node bboxes = BBox_empty_sah"
proof -
  have "foldl (\<lambda>b i. BBox_extend b (bboxes ! (prim_indices bvh ! i))) BBox_empty_sah [0..<k]
          = BBox_empty_sah" if "k \<le> unat (prim_count node)" for k
    using that assms by (induction k) (simp_all add: BBox_extend_empty_sah)
  then show ?thesis by (simp add: node_bbox_def)
qed

lemma finite_unit_box: "finite_box unit_box"
  by (simp add: unit_box_def finite_box_def finite_vec_def f0_def f1_def FLT_MAX_mag_def)


text \<open>
  Claim C1 fails on a single primitive with the unit box: the binned SAH build returns a
  root whose box is \<open>BBox::empty()\<close> of that source, \<open>[-FLT_MAX, FLT_MAX]\<close> on every axis,
  not the box of its primitive. (\<open>node_bbox_first_index\<close>: the loop reads
  \<open>prim_indices[0 .. prim_count)\<close> whatever \<open>first_index\<close> is.)
\<close>

theorem sah_single_leaf_bbox:
  "Bvh_build_sah stable_sort stable_partition int_min [unit_box] [c_a] 1
     = Some (Inr \<lparr> nodes = [\<lparr> bbox = BBox_empty_sah, prim_count = 1, first_index = 0 \<rparr>],
                    prim_indices = [0] \<rparr>)
   \<and> BBox_empty_sah \<noteq> unit_box"
proof -
  have sz: "Suc 0 \<le> vector_max_size" by (simp add: vector_max_size_def)
  have nb: "node_bbox \<lparr> nodes = [Node_zero\<lparr> prim_count := 1, first_index := 0 \<rparr>], prim_indices = [0] \<rparr>
              (Node_zero\<lparr> prim_count := 1, first_index := 0 \<rparr>) [unit_box] = BBox_empty_sah"
    by (rule node_bbox_finite) (simp add: finite_unit_box)
  have ne: "BBox_empty_sah \<noteq> unit_box"
    by (simp add: BBox_empty_sah_def unit_box_def Vec3_splat_def FLT_MAX_def f0_def)
  show ?thesis
    using sz ne nb
    by (simp add: Bvh_build_sah_def Let_def node_array_size_1 build_recursive.simps
        is_leaf_def min_prims_def Node_zero_def)
qed

section \<open>Traversal\<close>

text \<open>The slab test is monotone in \<open>tmax\<close>: a box that the cut ray meets, the longer ray
  meets too.\<close>

lemma not_fle_fle: "a \<noteq> NaN \<Longrightarrow> b \<noteq> NaN \<Longrightarrow> \<not> fle a b \<Longrightarrow> fle b a"
  by (auto simp: fle_def)

lemma robust_min_mono: "fle a b \<Longrightarrow> fle (robust_min c a) (robust_min c b)"
  by (auto simp: robust_min_def fle_def flt_def)

lemma Node_intersect_mono:
  assumes "org r' = org r" "dir r' = dir r" "tmin r' = tmin r"
    and "r' = r \<or> fle (tmax r') (tmax r)"
    and "Intersection_bool (Node_intersect node r')"
  shows "Intersection_bool (Node_intersect node r)"
proof (cases "r' = r")
  case True
  with assms(5) show ?thesis by simp
next
  case False
  with assms(4) have le: "fle (tmax r') (tmax r)" by simp
  have near: "t_near node r' = t_near node r" and far: "t_far node r' = t_far node r"
    using assms(1,2) by (simp_all add: t_near_def t_far_def inv_dir_def)
  have lo: "i_tmin (Node_intersect node r') = i_tmin (Node_intersect node r)"
    by (simp add: Node_intersect_tmin near assms(3))
  have "fle (i_tmax (Node_intersect node r')) (i_tmax (Node_intersect node r))"
    unfolding Node_intersect_tmax far by (intro robust_min_mono le)
  with assms(5) show ?thesis
    by (auto simp: Intersection_bool_def lo intro: fle_trans)
qed

lemma reaches_cases_head:
  assumes "reaches bvh ray a i"
  shows "i = a \<or> (a < length (nodes bvh) \<and> \<not> is_leaf (nodes bvh ! a)
           \<and> Intersection_bool (Node_intersect (nodes bvh ! a) ray)
           \<and> (reaches bvh ray (unat (first_index (nodes bvh ! a))) i
               \<or> reaches bvh ray (unat (first_index (nodes bvh ! a) + 1)) i))"
  using assms
proof (induction rule: reaches.induct)
  case reaches_self
  then show ?case by simp
next
  case (reaches_left i)
  then show ?case by (auto intro: reaches.intros)
next
  case (reaches_right i)
  then show ?case by (auto intro: reaches.intros)
qed

lemma candidate_head:
  assumes "candidate bvh ray a p"
  shows "a < length (nodes bvh) \<and> Intersection_bool (Node_intersect (nodes bvh ! a) ray)
     \<and> (if is_leaf (nodes bvh ! a)
         then \<exists>k < unat (prim_count (nodes bvh ! a)).
                p = prim_indices bvh ! (unat (first_index (nodes bvh ! a)) + k)
         else candidate bvh ray (unat (first_index (nodes bvh ! a))) p
              \<or> candidate bvh ray (unat (first_index (nodes bvh ! a) + 1)) p)"
  using assms
proof (cases rule: candidate.cases)
  case (candidateI i k)
  from reaches_cases_head [OF candidateI(2)] show ?thesis
  proof
    assume "i = a"
    with candidateI show ?thesis by auto
  next
    assume "a < length (nodes bvh) \<and> \<not> is_leaf (nodes bvh ! a)
           \<and> Intersection_bool (Node_intersect (nodes bvh ! a) ray)
           \<and> (reaches bvh ray (unat (first_index (nodes bvh ! a))) i
               \<or> reaches bvh ray (unat (first_index (nodes bvh ! a) + 1)) i)"
    with candidateI show ?thesis by (auto intro: candidate.intros)
  qed
qed

lemma well_formed_node:
  assumes "well_formed bvh prims" "i < length (nodes bvh)"
  shows "if is_leaf (nodes bvh ! i)
         then unat (first_index (nodes bvh ! i)) + unat (prim_count (nodes bvh ! i))
                \<le> length (prim_indices bvh)
         else i < unat (first_index (nodes bvh ! i))
              \<and> unat (first_index (nodes bvh ! i)) + 1 < length (nodes bvh)"
proof -
  have "\<forall>i \<in> set [0..<length (nodes bvh)].
          if is_leaf (nodes bvh ! i)
          then unat (first_index (nodes bvh ! i)) + unat (prim_count (nodes bvh ! i))
                 \<le> length (prim_indices bvh)
          else i < unat (first_index (nodes bvh ! i))
               \<and> unat (first_index (nodes bvh ! i)) + 1 < length (nodes bvh)"
    using assms(1) unfolding well_formed_def by blast
  moreover have "i \<in> set [0..<length (nodes bvh)]" using assms(2) by simp
  ultimately show ?thesis by (rule bspec)
qed

lemma tri_t_cong: "org r = org r' \<Longrightarrow> dir r = dir r' \<Longrightarrow> tri_t tri r = tri_t tri r'"
  by (simp add: tri_t_def tri_inv_det_def)

lemma tri_uvw_cong:
  "org r = org r' \<Longrightarrow> dir r = dir r' \<Longrightarrow>
   tri_u tri r = tri_u tri r' \<and> tri_v tri r = tri_v tri r' \<and> tri_w tri r = tri_w tri r'"
  by (simp add: tri_u_def tri_v_def tri_w_def tri_inv_det_def)

lemma unat_of_nat_32: "p < 2 ^ 32 \<Longrightarrow> unat (of_nat p :: 32 word) = p"
  by (simp add: unat_of_nat)

lemma of_nat_not_none: "p < 2 ^ 32 - 1 \<Longrightarrow> (of_nat p :: 32 word) \<noteq> - 1"
proof
  assume p: "p < 2 ^ 32 - 1" and e: "(of_nat p :: 32 word) = - 1"
  from p have "unat (of_nat p :: 32 word) = p" by (simp add: unat_of_nat)
  with e have "p = unat (- 1 :: 32 word)" by simp
  also have "\<dots> = 2 ^ 32 - 1" by (simp add: unsigned_minus_1_eq_mask mask_eq_exp_minus_1)
  finally show False using p by simp
qed

lemma hit_state_tmax_le:
  "hit_state r0 prims ray hit \<Longrightarrow> fle t (tmax ray) \<Longrightarrow> fle t (tmax r0)"
  by (auto simp: hit_state_def intro: fle_trans split: if_splits)

lemma later_refl: "later ray hit ray hit"
  by (simp add: later_def)

lemma later_trans:
  "later ra ha rb hb \<Longrightarrow> later rb hb rc hc \<Longrightarrow> later ra ha rc hc"
  by (auto simp: later_def intro: fle_trans)

lemma not_closer_later:
  "not_closer r0 prims ray hit p \<Longrightarrow> later ray hit ray' hit' \<Longrightarrow> not_closer r0 prims ray' hit' p"
  by (auto simp: not_closer_def later_def intro: fle_trans)

lemma hit_state_step:
  assumes inv: "hit_state r0 prims ray hit"
    and p: "p < length prims" "p < 2 ^ 32 - 1"
    and ti: "Triangle_intersect (prims ! p) ray = (found, ray')"
  shows "hit_state r0 prims ray' (if found then hit\<lparr> prim_index := of_nat p \<rparr> else hit)"
proof (cases found)
  case False
  with ti have "ray' = ray"
    by (auto simp: Triangle_intersect_unfold split: if_splits)
  with False inv show ?thesis by simp
next
  case True
  let ?t = "tri_t (prims ! p) ray"
  from True ti have r': "ray' = ray\<lparr> tmax := ?t \<rparr>"
    and uvw: "fge (tri_u (prims ! p) ray) f0" "fge (tri_v (prims ! p) ray) f0"
      "fge (tri_w (prims ! p) ray) f0"
    and ge: "fge ?t (tmin ray)" and le: "fle ?t (tmax ray)"
    by (auto simp: Triangle_intersect_unfold split: if_splits)
  from inv have fr: "org ray = org r0" "dir ray = dir r0" "tmin ray = tmin r0"
    by (simp_all add: hit_state_def)
  then have t0: "?t = tri_t (prims ! p) r0" by (intro tri_t_cong)
  have le0: "fle ?t (tmax r0)" using inv le by (rule hit_state_tmax_le)
  have "fst (Triangle_intersect (prims ! p) r0)"
    using uvw ge le0 tri_uvw_cong [OF fr(1,2), of "prims ! p"] t0 fr(3)
    by (simp add: Triangle_intersect_unfold)
  moreover have up: "unat (of_nat p :: 32 word) = p" using p(2) by (simp add: unat_of_nat)
  moreover have hb: "Hit_bool (hit\<lparr> prim_index := of_nat p \<rparr>)"
    using of_nat_not_none [OF p(2)] by (simp add: Hit_bool_def)
  ultimately show ?thesis
    using True p(1) fr t0 le0 ge by (simp add: hit_state_def r')
qed

lemma tri_step_later:
  assumes ti: "Triangle_intersect (prims ! p) ray = (found, ray')"
    and p: "p < 2 ^ 32 - 1"
  shows "later ray hit ray' (if found then hit\<lparr> prim_index := of_nat p \<rparr> else hit)"
proof (cases found)
  case False
  with ti have "ray' = ray"
    by (auto simp: Triangle_intersect_unfold split: if_splits)
  with False show ?thesis by (simp add: later_def)
next
  case True
  with ti have "ray' = ray\<lparr> tmax := tri_t (prims ! p) ray \<rparr>"
    and "fle (tri_t (prims ! p) ray) (tmax ray)"
    by (auto simp: Triangle_intersect_unfold split: if_splits)
  moreover have "Hit_bool (hit\<lparr> prim_index := of_nat p \<rparr>)"
    using of_nat_not_none [OF p] by (simp add: Hit_bool_def)
  ultimately show ?thesis using True by (simp add: later_def)
qed

lemma tri_step_not_closer:
  assumes inv: "hit_state r0 prims ray hit"
    and p: "p < 2 ^ 32 - 1"
    and ti: "Triangle_intersect (prims ! p) ray = (found, ray')"
  shows "not_closer r0 prims ray' (if found then hit\<lparr> prim_index := of_nat p \<rparr> else hit) p"
proof (cases found)
  case True
  let ?t = "tri_t (prims ! p) ray"
  from True ti have r': "ray' = ray\<lparr> tmax := ?t \<rparr>" and le: "fle ?t (tmax ray)"
    by (auto simp: Triangle_intersect_unfold split: if_splits)
  from inv have fr: "org ray = org r0" "dir ray = dir r0"
    by (simp_all add: hit_state_def)
  then have t0: "?t = tri_t (prims ! p) r0" by (intro tri_t_cong)
  from le have "?t \<noteq> NaN" by (simp add: fle_def)
  then have "fle ?t ?t" by (rule fle_refl)
  moreover have "Hit_bool (hit\<lparr> prim_index := of_nat p \<rparr>)"
    using of_nat_not_none [OF p] by (simp add: Hit_bool_def)
  ultimately show ?thesis using True t0 by (simp add: not_closer_def r')
next
  case False
  with ti have r': "ray' = ray" and
    no: "\<not> (fge (tri_u (prims ! p) ray) f0 \<and> fge (tri_v (prims ! p) ray) f0
          \<and> fge (tri_w (prims ! p) ray) f0
          \<and> fge (tri_t (prims ! p) ray) (tmin ray) \<and> fle (tri_t (prims ! p) ray) (tmax ray))"
    by (auto simp: Triangle_intersect_unfold split: if_splits)
  from inv have fr: "org ray = org r0" "dir ray = dir r0" "tmin ray = tmin r0"
    by (simp_all add: hit_state_def)
  have t0: "tri_t (prims ! p) ray = tri_t (prims ! p) r0" using fr(1,2) by (intro tri_t_cong)
  note uvw = tri_uvw_cong [OF fr(1,2), of "prims ! p"]
  show ?thesis
    unfolding not_closer_def
  proof
    assume "fst (Triangle_intersect (prims ! p) r0)"
    then have h0: "fge (tri_u (prims ! p) r0) f0" "fge (tri_v (prims ! p) r0) f0"
      "fge (tri_w (prims ! p) r0) f0" "fge (tri_t (prims ! p) r0) (tmin r0)"
      "fle (tri_t (prims ! p) r0) (tmax r0)"
      by (auto simp: Triangle_intersect_unfold split: if_splits)
    with no uvw t0 fr(3) have nle: "\<not> fle (tri_t (prims ! p) r0) (tmax ray)" by simp
    have hb: "Hit_bool hit"
    proof (rule ccontr)
      assume "\<not> Hit_bool hit"
      with inv have "ray = r0" by (simp add: hit_state_def)
      with nle h0(5) show False by simp
    qed
    with inv have "fle (tmax ray) (tmax r0)" by (auto simp: hit_state_def)
    then have "tmax ray \<noteq> NaN" by (simp add: fle_def)
    moreover from h0(5) have "tri_t (prims ! p) r0 \<noteq> NaN" by (simp add: fle_def)
    ultimately have "fle (tmax ray) (tri_t (prims ! p) r0)"
      using nle by (intro not_fle_fle)
    with hb False r' show "Hit_bool (if found then hit\<lparr> prim_index := of_nat p \<rparr> else hit)
       \<and> fle (tmax ray') (tri_t (prims ! p) r0)" by simp
  qed
qed

lemma hit_state_passes:
  assumes "hit_state r0 prims ray hit" "Intersection_bool (Node_intersect node ray)"
  shows "Intersection_bool (Node_intersect node r0)"
proof -
  have "org ray = org r0" "dir ray = dir r0" "tmin ray = tmin r0"
    using assms(1) by (simp_all add: hit_state_def)
  moreover have "ray = r0 \<or> fle (tmax ray) (tmax r0)"
    using assms(1) by (auto simp: hit_state_def split: if_splits)
  ultimately show ?thesis using assms(2) by (intro Node_intersect_mono [of ray r0])
qed

lemma leaf_loop_ok:
  assumes "\<forall>p \<in> set (prim_indices bvh). p < length prims \<and> p < 2 ^ 32 - 1"
    and "\<forall>i \<in> set is. unat (first_index node) + i < length (prim_indices bvh)"
    and "\<forall>i \<in> set is. candidate bvh r0 0 (prim_indices bvh ! (unat (first_index node) + i))"
    and "hit_state r0 prims ray hit"
    and "hit_found bvh r0 hit"
  shows "\<exists>ray' hit'. leaf_loop bvh prims node is (ray, hit) = Inr (ray', hit')
           \<and> hit_state r0 prims ray' hit' \<and> hit_found bvh r0 hit' \<and> later ray hit ray' hit'
           \<and> (\<forall>i \<in> set is. not_closer r0 prims ray' hit'
                 (prim_indices bvh ! (unat (first_index node) + i)))"
  using assms(2-5)
proof (induction "is" arbitrary: ray hit)
  case Nil
  then show ?case by (simp add: later_refl)
next
  case (Cons i "is")
  let ?k = "unat (first_index node) + i"
  let ?p = "prim_indices bvh ! ?k"
  from Cons.prems(1) have k: "?k < length (prim_indices bvh)" by simp
  then have "?p \<in> set (prim_indices bvh)" by simp
  with assms(1) have p: "?p < length prims" "?p < 2 ^ 32 - 1" by auto
  obtain found ray1 where ti: "Triangle_intersect (prims ! ?p) ray = (found, ray1)"
    by (cases "Triangle_intersect (prims ! ?p) ray") auto
  let ?hit1 = "if found then hit\<lparr> prim_index := of_nat ?p \<rparr> else hit"
  have inv1: "hit_state r0 prims ray1 ?hit1"
    using Cons.prems(3) p ti by (rule hit_state_step)
  have "candidate bvh r0 0 ?p" using Cons.prems(2) by simp
  then have f1: "hit_found bvh r0 ?hit1"
    using Cons.prems(4) p(2) by (simp add: hit_found_def unat_of_nat)
  have l1: "later ray hit ray1 ?hit1"
    using ti p(2) by (rule tri_step_later)
  have n1: "not_closer r0 prims ray1 ?hit1 ?p"
    using Cons.prems(3) p(2) ti by (rule tri_step_not_closer)
  have "\<forall>i \<in> set is. unat (first_index node) + i < length (prim_indices bvh)"
    and "\<forall>i \<in> set is. candidate bvh r0 0 (prim_indices bvh ! (unat (first_index node) + i))"
    using Cons.prems(1,2) by simp_all
  from Cons.IH [OF this inv1 f1] obtain ray' hit' where
    ll: "leaf_loop bvh prims node is (ray1, ?hit1) = Inr (ray', hit')"
    and inv': "hit_state r0 prims ray' hit'"
    and f': "hit_found bvh r0 hit'"
    and l': "later ray1 ?hit1 ray' hit'"
    and n': "\<forall>i \<in> set is. not_closer r0 prims ray' hit'
                 (prim_indices bvh ! (unat (first_index node) + i))"
    by blast
  have "leaf_loop bvh prims node (i # is) (ray, hit) = Inr (ray', hit')"
    using k p ti ll by (simp add: Let_def)
  moreover have "later ray hit ray' hit'" using l1 l' by (rule later_trans)
  moreover have "not_closer r0 prims ray' hit' ?p" using n1 l' by (rule not_closer_later)
  ultimately show ?case using inv' f' n' by simp
qed

lemma pow_push:
  assumes "i < c" "c + 1 < n"
  shows "(2::nat) ^ (n - (c + 1)) + 2 ^ (n - c) < 2 ^ (n - i)"
proof -
  obtain a where a: "n - (c + 1) = a" by simp
  with assms have nc: "n - c = Suc a" by simp
  from assms a have "Suc (Suc a) \<le> n - i" by simp
  then have "(2::nat) ^ Suc (Suc a) \<le> 2 ^ (n - i)"
    by (intro power_increasing) simp_all
  moreover have "(2::nat) ^ a + 2 ^ Suc a < 2 ^ Suc (Suc a)" by simp
  ultimately have "(2::nat) ^ a + 2 ^ Suc a < 2 ^ (n - i)" by linarith
  then show ?thesis using a nc by simp
qed

lemma hit_state_frame:
  "hit_state r0 prims ray hit \<Longrightarrow> org ray = org r0 \<and> dir ray = dir r0 \<and> tmin ray = tmin r0"
  by (simp add: hit_state_def)

lemma culled_no_candidate:
  assumes "hit_state r0 prims ray hit" "hit_state r0 prims ray' hit'"
    and "later ray hit ray' hit'"
    and "\<not> Intersection_bool (Node_intersect (nodes bvh ! a) ray)"
  shows "\<not> candidate bvh ray' a p"
proof
  assume "candidate bvh ray' a p"
  then have "Intersection_bool (Node_intersect (nodes bvh ! a) ray')"
    using candidate_head by blast
  moreover have "org ray' = org ray" "dir ray' = dir ray" "tmin ray' = tmin ray"
    using assms(1,2) by (simp_all add: hit_state_def)
  moreover have "ray' = ray \<or> fle (tmax ray') (tmax ray)"
    using assms(3) by (simp add: later_def)
  ultimately have "Intersection_bool (Node_intersect (nodes bvh ! a) ray)"
    by (intro Node_intersect_mono [of ray' ray])
  with assms(4) show False by simp
qed

lemma traverse_loop_ok:
  assumes wf: "well_formed bvh prims"
  shows "(\<forall>w \<in> set stack. unat w < length (nodes bvh)) \<Longrightarrow>
     (\<forall>w \<in> set stack. reaches bvh r0 0 (unat w)) \<Longrightarrow>
     hit_state r0 prims ray hit \<Longrightarrow> hit_found bvh r0 hit \<Longrightarrow>
     \<exists>hit' ray'. traverse_loop bvh prims (stack, ray, hit) = Some (Inr (hit', ray'))
        \<and> hit_state r0 prims ray' hit' \<and> hit_found bvh r0 hit' \<and> later ray hit ray' hit'
        \<and> (\<forall>s \<in> set stack. \<forall>p. candidate bvh ray' (unat s) p
              \<longrightarrow> not_closer r0 prims ray' hit' p)"
proof (induction "stack_weight (length (nodes bvh)) stack" arbitrary: stack ray hit
    rule: less_induct)
  case less
  let ?n = "length (nodes bvh)"
  show ?case
  proof (cases stack)
    case Nil
    with less.prems(3,4) show ?thesis by (simp add: traverse_loop.simps later_refl)
  next
    case (Cons t rest)
    let ?node = "nodes bvh ! unat t"
    from Cons less.prems(1) have t: "unat t < ?n" and rest: "\<forall>w \<in> set rest. unat w < ?n"
      by simp_all
    from Cons less.prems(2) have rt: "reaches bvh r0 0 (unat t)"
      and rrest: "\<forall>w \<in> set rest. reaches bvh r0 0 (unat w)"
      by simp_all
    note inv = less.prems(3) and fnd = less.prems(4)
    have wrest: "stack_weight ?n rest < stack_weight ?n stack"
      using Cons by (simp add: stack_weight_def)
    show ?thesis
    proof (cases "Intersection_bool (Node_intersect ?node ray)")
      case False
      from less.hyps [OF wrest rest rrest inv fnd] obtain hit' ray' where
        tl: "traverse_loop bvh prims (rest, ray, hit) = Some (Inr (hit', ray'))"
        and inv': "hit_state r0 prims ray' hit'"
        and f': "hit_found bvh r0 hit'"
        and l': "later ray hit ray' hit'"
        and c': "\<forall>s \<in> set rest. \<forall>p. candidate bvh ray' (unat s) p
                   \<longrightarrow> not_closer r0 prims ray' hit' p"
        by blast
      have "traverse_loop bvh prims (stack, ray, hit) = Some (Inr (hit', ray'))"
        using Cons t False tl by (subst traverse_loop.simps) simp
      moreover have "\<forall>p. candidate bvh ray' (unat t) p \<longrightarrow> not_closer r0 prims ray' hit' p"
        using culled_no_candidate [OF inv inv' l' False] by simp
      ultimately show ?thesis using inv' f' l' c' Cons by simp
    next
      case True
      have pass0: "Intersection_bool (Node_intersect ?node r0)"
        using inv True by (rule hit_state_passes)
      show ?thesis
      proof (cases "is_leaf ?node")
        case leaf: True
        from well_formed_node [OF wf t] leaf have rng:
          "unat (first_index ?node) + unat (prim_count ?node) \<le> length (prim_indices bvh)"
          by simp
        have pi: "\<forall>p \<in> set (prim_indices bvh). p < length prims \<and> p < 2 ^ 32 - 1"
          using wf by (simp add: well_formed_def)
        have "\<forall>i \<in> set [0..<unat (prim_count ?node)].
                unat (first_index ?node) + i < length (prim_indices bvh)"
          using rng by auto
        moreover have "\<forall>i \<in> set [0..<unat (prim_count ?node)].
                candidate bvh r0 0 (prim_indices bvh ! (unat (first_index ?node) + i))"
          using rt t leaf pass0 by (auto intro: candidateI)
        ultimately obtain ray1 hit1 where
          ll: "leaf_loop bvh prims ?node [0..<unat (prim_count ?node)] (ray, hit) = Inr (ray1, hit1)"
          and inv1: "hit_state r0 prims ray1 hit1"
          and f1: "hit_found bvh r0 hit1"
          and l1: "later ray hit ray1 hit1"
          and n1: "\<forall>i \<in> set [0..<unat (prim_count ?node)]. not_closer r0 prims ray1 hit1
                 (prim_indices bvh ! (unat (first_index ?node) + i))"
          using leaf_loop_ok [OF pi _ _ inv fnd, of "[0..<unat (prim_count ?node)]" ?node]
          by blast
        from less.hyps [OF wrest rest rrest inv1 f1] obtain hit' ray' where
          tl: "traverse_loop bvh prims (rest, ray1, hit1) = Some (Inr (hit', ray'))"
          and inv': "hit_state r0 prims ray' hit'"
          and f': "hit_found bvh r0 hit'"
          and l': "later ray1 hit1 ray' hit'"
          and c': "\<forall>s \<in> set rest. \<forall>p. candidate bvh ray' (unat s) p
                     \<longrightarrow> not_closer r0 prims ray' hit' p"
          by blast
        have "traverse_loop bvh prims (stack, ray, hit) = Some (Inr (hit', ray'))"
          using Cons t True leaf ll tl by (subst traverse_loop.simps) simp
        moreover have "later ray hit ray' hit'" using l1 l' by (rule later_trans)
        moreover have "\<forall>p. candidate bvh ray' (unat t) p \<longrightarrow> not_closer r0 prims ray' hit' p"
        proof (intro allI impI)
          fix p assume "candidate bvh ray' (unat t) p"
          from candidate_head [OF this] leaf obtain k where
            k: "k < unat (prim_count ?node)"
            and pk: "p = prim_indices bvh ! (unat (first_index ?node) + k)"
            by auto
          from k n1 have "not_closer r0 prims ray1 hit1
                 (prim_indices bvh ! (unat (first_index ?node) + k))" by simp
          then show "not_closer r0 prims ray' hit' p"
            unfolding pk using l' by (rule not_closer_later)
        qed
        ultimately show ?thesis using inv' f' c' Cons by simp
      next
        case inner: False
        let ?c = "first_index ?node"
        from well_formed_node [OF wf t] inner have c: "unat t < unat ?c" "unat ?c + 1 < ?n"
          by simp_all
        from wf have "?n \<le> 2 ^ 32" by (simp add: well_formed_def)
        with c(2) have "unat ?c + unat (1 :: 32 word) < 2 ^ LENGTH(32)" by simp
        then have c1: "unat (?c + 1) = unat ?c + 1"
          by (simp add: unat_add_lem [THEN iffD1])
        let ?stack' = "(?c + 1) # ?c # rest"
        have in': "\<forall>w \<in> set ?stack'. unat w < ?n"
          using rest c c1 by simp
        have "reaches bvh r0 0 (unat ?c)" "reaches bvh r0 0 (unat (?c + 1))"
          using rt t inner pass0 by (auto intro: reaches_left reaches_right)
        with rrest have re': "\<forall>w \<in> set ?stack'. reaches bvh r0 0 (unat w)"
          by simp
        have "stack_weight ?n ?stack' < stack_weight ?n stack"
          using Cons pow_push [OF c] c1 by (simp add: stack_weight_def)
        from less.hyps [OF this in' re' inv fnd] obtain hit' ray' where
          tl: "traverse_loop bvh prims (?stack', ray, hit) = Some (Inr (hit', ray'))"
          and inv': "hit_state r0 prims ray' hit'"
          and f': "hit_found bvh r0 hit'"
          and l': "later ray hit ray' hit'"
          and c': "\<forall>s \<in> set ?stack'. \<forall>p. candidate bvh ray' (unat s) p
                     \<longrightarrow> not_closer r0 prims ray' hit' p"
          by blast
        have "traverse_loop bvh prims (stack, ray, hit) = Some (Inr (hit', ray'))"
          using Cons t True inner tl by (subst traverse_loop.simps) (simp add: Let_def)
        moreover have "\<forall>p. candidate bvh ray' (unat t) p \<longrightarrow> not_closer r0 prims ray' hit' p"
        proof (intro allI impI)
          fix p assume "candidate bvh ray' (unat t) p"
          from candidate_head [OF this] inner have
            "candidate bvh ray' (unat ?c) p \<or> candidate bvh ray' (unat (?c + 1)) p"
            by simp
          with c' show "not_closer r0 prims ray' hit' p" by auto
        qed
        ultimately show ?thesis using inv' f' l' c' Cons by simp
      qed
    qed
  qed
qed

text \<open>
  Claim C9. On a well-formed tree the traversal returns, for every ray. Origin, direction
  and \<open>tmin\<close> of the ray are unchanged. When the result is the no-hit sentinel the whole
  ray is unchanged. Otherwise the result names a primitive that lies in a leaf the given ray
  is led to, the given ray meets that primitive, \<open>tmax\<close> is the distance at which it does,
  and that distance lies between \<open>tmin\<close> and the \<open>tmax\<close> the ray came with. The hit is the
  closest one: whenever the given ray meets a primitive of a leaf that the returned ray (the
  ray cut at the returned \<open>tmax\<close>) is still led to, the result is a hit and the returned
  \<open>tmax\<close> is at most the distance of that primitive.
\<close>

theorem traverse_frame:
  assumes "well_formed bvh prims"
  shows "\<exists>hit ray'. traverse bvh ray prims = Some (Inr (hit, ray'))
     \<and> org ray' = org ray \<and> dir ray' = dir ray \<and> tmin ray' = tmin ray
     \<and> (if Hit_bool hit
         then unat (prim_index hit) < length prims
              \<and> candidate bvh ray 0 (unat (prim_index hit))
              \<and> fst (Triangle_intersect (prims ! unat (prim_index hit)) ray)
              \<and> tmax ray' = tri_t (prims ! unat (prim_index hit)) ray
              \<and> fle (tmax ray') (tmax ray) \<and> fge (tmax ray') (tmin ray)
         else ray' = ray)
     \<and> (\<forall>p. candidate bvh ray' 0 p \<longrightarrow> fst (Triangle_intersect (prims ! p) ray)
            \<longrightarrow> Hit_bool hit \<and> fle (tmax ray') (tri_t (prims ! p) ray))"
proof -
  have "\<forall>w \<in> set [0 :: 32 word]. unat w < length (nodes bvh)"
    using assms by (simp add: well_formed_def)
  moreover have "\<forall>w \<in> set [0 :: 32 word]. reaches bvh ray 0 (unat w)"
    by (simp add: reaches_self)
  moreover have "hit_state ray prims ray Hit_none"
    by (simp add: hit_state_def Hit_bool_def Hit_none_def)
  moreover have "hit_found bvh ray Hit_none"
    by (simp add: hit_found_def Hit_bool_def Hit_none_def)
  ultimately obtain hit ray' where
    tl: "traverse_loop bvh prims ([0], ray, Hit_none) = Some (Inr (hit, ray'))"
    and inv: "hit_state ray prims ray' hit"
    and fnd: "hit_found bvh ray hit"
    and cl: "\<forall>s \<in> set [0 :: 32 word]. \<forall>p. candidate bvh ray' (unat s) p
               \<longrightarrow> not_closer ray prims ray' hit p"
    using traverse_loop_ok [OF assms] by blast
  from cl have "\<forall>p. candidate bvh ray' 0 p \<longrightarrow> fst (Triangle_intersect (prims ! p) ray)
            \<longrightarrow> Hit_bool hit \<and> fle (tmax ray') (tri_t (prims ! p) ray)"
    by (simp add: not_closer_def)
  with tl inv fnd show ?thesis
    by (auto simp: traverse_def hit_state_def hit_found_def)
qed

text \<open>The closest of two: the far triangle is tested first and met at distance 3, then the
  near one at distance 2, which is the result.\<close>

lemma well_formed_two_tri: "well_formed two_tri_bvh [tri1, tri2]"
  by (simp add: well_formed_def two_tri_bvh_def is_leaf_def)

lemma tt_root: "Intersection_bool (Node_intersect
     \<lparr> bbox = BBox (Vec3 (Fin True 1) f0 (Fin True 1)) (Vec3 f1 f1 f0),
       prim_count = 0, first_index = 1 \<rparr> ray2)"
  by code_simp

lemma tt_far: "Intersection_bool (Node_intersect
     \<lparr> bbox = BBox (Vec3 (Fin True 1) f0 (Fin True 1)) (Vec3 f1 f1 (Fin True 1)),
       prim_count = 1, first_index = 1 \<rparr> ray2)"
  by code_simp

lemma tt_far_tri: "Triangle_intersect tri2 ray2 = (True, ray2\<lparr> tmax := Fin False 3 \<rparr>)"
  by code_simp

lemma tt_near: "Intersection_bool (Node_intersect
     \<lparr> bbox = BBox (Vec3 (Fin True 1) f0 f0) (Vec3 f1 f1 f0),
       prim_count = 1, first_index = 0 \<rparr> (ray2\<lparr> tmax := Fin False 3 \<rparr>))"
  by code_simp

lemma tt_near_tri:
  "Triangle_intersect tri1 (ray2\<lparr> tmax := Fin False 3 \<rparr>) = (True, ray2\<lparr> tmax := Fin False 2 \<rparr>)"
  by code_simp

lemma traverse_two_tri:
  "traverse two_tri_bvh ray2 [tri1, tri2]
     = Some (Inr (\<lparr> prim_index = 0 \<rparr>, ray2\<lparr> tmax := Fin False 2 \<rparr>))"
  by (simp add: traverse_def two_tri_bvh_def traverse_loop.simps is_leaf_def Hit_none_def
      tt_root tt_far tt_far_tri tt_near tt_near_tri)

text \<open>With \<open>tmax\<close> cut to 2 the ray still meets the box of the root and the box of the leaf
  of the near triangle.\<close>

lemma tt_root_cut: "Intersection_bool (Node_intersect
     \<lparr> bbox = BBox (Vec3 (Fin True 1) f0 (Fin True 1)) (Vec3 f1 f1 f0),
       prim_count = 0, first_index = 1 \<rparr> (ray2\<lparr> tmax := Fin False 2 \<rparr>))"
  by code_simp

lemma tt_near_cut: "Intersection_bool (Node_intersect
     \<lparr> bbox = BBox (Vec3 (Fin True 1) f0 f0) (Vec3 f1 f1 f0),
       prim_count = 1, first_index = 0 \<rparr> (ray2\<lparr> tmax := Fin False 2 \<rparr>))"
  by code_simp

lemma tt_near_tri0: "fst (Triangle_intersect tri1 ray2)"
  by code_simp

lemma tt_near_t0: "tri_t tri1 ray2 = Fin False 2"
  by code_simp

lemma tt_candidate: "candidate two_tri_bvh (ray2\<lparr> tmax := Fin False 2 \<rparr>) 0 0"
proof -
  let ?r = "ray2\<lparr> tmax := Fin False 2 \<rparr>"
  have "reaches two_tri_bvh ?r 0 0" by (rule reaches_self)
  then have "reaches two_tri_bvh ?r 0 (unat (first_index (nodes two_tri_bvh ! 0)))"
    by (rule reaches_left) (simp_all add: two_tri_bvh_def is_leaf_def tt_root_cut)
  then have r1: "reaches two_tri_bvh ?r 0 1" by (simp add: two_tri_bvh_def)
  have "candidate two_tri_bvh ?r 0
          (prim_indices two_tri_bvh ! (unat (first_index (nodes two_tri_bvh ! 1)) + 0))"
    using r1 by (rule candidateI) (simp_all add: two_tri_bvh_def is_leaf_def tt_near_cut)
  then show ?thesis by (simp add: two_tri_bvh_def)
qed

theorem traverse_frame_witness:
  "well_formed two_tri_bvh [tri1, tri2]
   \<and> traverse two_tri_bvh ray2 [tri1, tri2]
       = Some (Inr (\<lparr> prim_index = 0 \<rparr>, ray2\<lparr> tmax := Fin False 2 \<rparr>))
   \<and> Hit_bool \<lparr> prim_index = 0 \<rparr>
   \<and> candidate two_tri_bvh (ray2\<lparr> tmax := Fin False 2 \<rparr>) 0 0
   \<and> fst (Triangle_intersect ([tri1, tri2] ! 0) ray2)
   \<and> fle (tmax (ray2\<lparr> tmax := Fin False 2 \<rparr>)) (tri_t ([tri1, tri2] ! 0) ray2)"
proof -
  from traverse_frame [OF well_formed_two_tri, of ray2] obtain hit ray' where
    tr: "traverse two_tri_bvh ray2 [tri1, tri2] = Some (Inr (hit, ray'))"
    and cl: "\<forall>p. candidate two_tri_bvh ray' 0 p
            \<longrightarrow> fst (Triangle_intersect ([tri1, tri2] ! p) ray2)
            \<longrightarrow> Hit_bool hit \<and> fle (tmax ray') (tri_t ([tri1, tri2] ! p) ray2)"
    by blast
  from tr have h: "hit = \<lparr> prim_index = 0 \<rparr>" and r: "ray' = ray2\<lparr> tmax := Fin False 2 \<rparr>"
    by (simp_all add: traverse_two_tri)
  have t0: "fst (Triangle_intersect ([tri1, tri2] ! 0) ray2)"
    by (simp add: tt_near_tri0)
  from cl tt_candidate t0 have
    "Hit_bool hit \<and> fle (tmax ray') (tri_t ([tri1, tri2] ! 0) ray2)"
    unfolding r by blast
  with h r t0 tt_candidate well_formed_two_tri show ?thesis
    by (simp add: traverse_two_tri)
qed

end
